theory Spec2Isabelle
  imports Main
begin

section \<open>Run-time values of the source language\<close>

text \<open>
  The library is written in TypeScript and takes arguments of type \<open>unknown\<close>, so the
  model works on a datatype of run-time values.

  A number is a double-precision value: \<open>NaN\<close>, an infinity, or a finite value
  \<open>Fin m e\<close>, which stands for \<open>m * 2 ^ e\<close> with \<open>m\<close> odd (zero is \<open>Fin 0 0\<close>; the
  two zeros of the language are strictly equal and print alike, and are one value here).
  Every operation below that produces a number rounds to this form, so two finite numbers
  are equal exactly when they are the same term.

  Strings are lists of 8-bit characters, read as code units below 256. Functions,
  symbols, objects and arrays carry an identity (a natural number), which is all that
  strict equality looks at. An object is given by its own enumerable string-keyed
  properties in iteration order. An array is given by its elements (\<open>None\<close> is a hole)
  and by its other own enumerable properties, such as \<open>index\<close>, \<open>input\<close> and \<open>groups\<close>
  of a regular-expression match.
\<close>

datatype jsnum = NaN | PosInf | NegInf | Fin int int

datatype jsval =
    JUndefined
  | JNull
  | JBool bool
  | JNum jsnum
  | JStr string
  | JBigInt int
  | JSymbol nat string
  | JFunction nat string
  | JObject nat "(string \<times> jsval) list"
  | JArray nat "jsval option list" "(string \<times> jsval) list"

datatype jstype =
  TUndefined | TObject | TBoolean | TNumber | TString | TBigint | TSymbol | TFunction

text \<open>A thrown exception: an \<open>Error\<close> or a \<open>TypeError\<close> with its message.\<close>

datatype error = Error string | TypeError string

fun typeof :: "jsval \<Rightarrow> jstype" where
  "typeof JUndefined = TUndefined"
| "typeof JNull = TObject"
| "typeof (JBool b) = TBoolean"
| "typeof (JNum n) = TNumber"
| "typeof (JStr s) = TString"
| "typeof (JBigInt i) = TBigint"
| "typeof (JSymbol a d) = TSymbol"
| "typeof (JFunction a src) = TFunction"
| "typeof (JObject a ps) = TObject"
| "typeof (JArray a els named) = TObject"

text \<open>Truthiness, as tested by \<open>!v\<close> and by \<open>c ? x : y\<close>.\<close>

fun truthy :: "jsval \<Rightarrow> bool" where
  "truthy JUndefined = False"
| "truthy JNull = False"
| "truthy (JBool b) = b"
| "truthy (JNum n) = (n \<noteq> NaN \<and> n \<noteq> Fin 0 0)"
| "truthy (JStr s) = (s \<noteq> [])"
| "truthy (JBigInt i) = (i \<noteq> 0)"
| "truthy v = True"

text \<open>The loose test \<open>v == null\<close>: true of \<open>null\<close> and \<open>undefined\<close> only.\<close>

fun eq_null :: "jsval \<Rightarrow> bool" where
  "eq_null JUndefined = True"
| "eq_null JNull = True"
| "eq_null v = False"

text \<open>
  Strict equality \<open>===\<close>: same type and same value, \<open>NaN\<close> equal to nothing, objects
  compared by identity.
\<close>

fun strict_eq :: "jsval \<Rightarrow> jsval \<Rightarrow> bool" where
  "strict_eq JUndefined w = (case w of JUndefined \<Rightarrow> True | _ \<Rightarrow> False)"
| "strict_eq JNull w = (case w of JNull \<Rightarrow> True | _ \<Rightarrow> False)"
| "strict_eq (JBool a) w = (case w of JBool b \<Rightarrow> a = b | _ \<Rightarrow> False)"
| "strict_eq (JNum a) w = (case w of JNum b \<Rightarrow> a \<noteq> NaN \<and> b \<noteq> NaN \<and> a = b | _ \<Rightarrow> False)"
| "strict_eq (JStr a) w = (case w of JStr b \<Rightarrow> a = b | _ \<Rightarrow> False)"
| "strict_eq (JBigInt a) w = (case w of JBigInt b \<Rightarrow> a = b | _ \<Rightarrow> False)"
| "strict_eq (JSymbol a d) w = (case w of JSymbol b e \<Rightarrow> a = b | _ \<Rightarrow> False)"
| "strict_eq (JFunction a s) w = (case w of JFunction b t \<Rightarrow> a = b | _ \<Rightarrow> False)"
| "strict_eq (JObject a ps) w = (case w of JObject b qs \<Rightarrow> a = b | _ \<Rightarrow> False)"
| "strict_eq (JArray a els named) w = (case w of JArray b els' named' \<Rightarrow> a = b | _ \<Rightarrow> False)"

subsection \<open>Rounding to a double\<close>

text \<open>The number of binary and of decimal digits of a positive integer.\<close>

function bit_length :: "int \<Rightarrow> int" where
  "bit_length n = (if n \<le> 0 then 0 else 1 + bit_length (n div 2))"
  by pat_completeness auto
termination
  by (relation "measure nat") auto

declare bit_length.simps [simp del]

function decimal_length :: "int \<Rightarrow> int" where
  "decimal_length n = (if n \<le> 0 then 0 else 1 + decimal_length (n div 10))"
  by pat_completeness auto
termination
  by (relation "measure nat") auto

declare decimal_length.simps [simp del]

text \<open>\<open>m * 2 ^ e\<close> with the factors of two moved out of \<open>m\<close>.\<close>

function canonical :: "int \<Rightarrow> int \<Rightarrow> jsnum" where
  "canonical m e =
     (if m = 0 then Fin 0 0
      else if even m then canonical (m div 2) (e + 1)
      else Fin m e)"
  by pat_completeness auto
termination
  by (relation "measure (\<lambda>(m, e). nat \<bar>m\<bar>)") auto

declare canonical.simps [simp del]

text \<open>\<open>scaled_le b l q p\<close> is \<open>b ^ l \<le> p / q\<close>, for positive \<open>q\<close> and any integer \<open>l\<close>.\<close>

definition scaled_le :: "int \<Rightarrow> int \<Rightarrow> int \<Rightarrow> int \<Rightarrow> bool" where
  "scaled_le b l q p = (if 0 \<le> l then q * b ^ nat l \<le> p else q \<le> p * b ^ nat (- l))"

text \<open>The integer nearest to \<open>n / d\<close>, a tie going to the even one.\<close>

definition round_half_even_div :: "int \<Rightarrow> int \<Rightarrow> int" where
  "round_half_even_div n d =
     (let q = n div d; r = n mod d
      in if 2 * r < d then q else if d < 2 * r then q + 1 else if even q then q else q + 1)"

text \<open>
  The double nearest to \<open>p / q\<close> (for \<open>p \<ge> 0\<close> and \<open>q > 0\<close>), with the sign given:
  round-to-nearest, ties-to-even, with 53 significant bits, the least exponent
  \<open>- 1074\<close> of the subnormal numbers, and overflow to an infinity from \<open>2 ^ 1024\<close> on.
  Here \<open>e\<close> is the binary exponent of \<open>p / q\<close>, that is \<open>2 ^ e \<le> p / q < 2 ^ (e + 1)\<close>, and
  \<open>2 ^ u\<close> is the distance between neighbouring doubles there.
\<close>

definition double_of_ratio :: "bool \<Rightarrow> int \<Rightarrow> int \<Rightarrow> jsnum" where
  "double_of_ratio negative p q =
     (if p = 0 then Fin 0 0
      else
        (let l = bit_length p - bit_length q;
             e = (if scaled_le 2 l q p then l else l - 1);
             u = max (e - 52) (- 1074);
             m = (if u < 0 then round_half_even_div (p * 2 ^ nat (- u)) q
                  else round_half_even_div p (q * 2 ^ nat u))
         in if 1024 < bit_length m + u then (if negative then NegInf else PosInf)
            else canonical (if negative then - m else m) u))"

text \<open>The doubles nearest to \<open>m * 10 ^ e\<close>, to \<open>m * 2 ^ e\<close> and to the integer \<open>i\<close>.\<close>

definition double_of_decimal :: "bool \<Rightarrow> int \<Rightarrow> int \<Rightarrow> jsnum" where
  "double_of_decimal negative m e =
     (if 0 \<le> e then double_of_ratio negative (m * 10 ^ nat e) 1
      else double_of_ratio negative m (10 ^ nat (- e)))"

definition double_of_binary :: "int \<Rightarrow> int \<Rightarrow> jsnum" where
  "double_of_binary m e =
     (if 0 \<le> e then double_of_ratio (m < 0) (\<bar>m\<bar> * 2 ^ nat e) 1
      else double_of_ratio (m < 0) \<bar>m\<bar> (2 ^ nat (- e)))"

definition num :: "int \<Rightarrow> jsnum" where
  "num i = double_of_ratio (i < 0) \<bar>i\<bar> 1"

subsection \<open>Built-in string and number operations\<close>

text \<open>
  White space as \<open>String.prototype.trim\<close> and \<open>Number\<close> see it, among the code units
  below 256.
\<close>

definition is_ws :: "char \<Rightarrow> bool" where
  "is_ws c = ((of_char c :: nat) \<in> {9, 10, 11, 12, 13, 32, 160})"

definition trim :: "string \<Rightarrow> string" where
  "trim s = rev (dropWhile is_ws (rev (dropWhile is_ws s)))"

text \<open>\<open>String.prototype.toLowerCase\<close> on code units below 256.\<close>

definition lower_char :: "char \<Rightarrow> char" where
  "lower_char c =
     (let n = (of_char c :: nat)
      in if (65 \<le> n \<and> n \<le> 90) \<or> (192 \<le> n \<and> n \<le> 222 \<and> n \<noteq> 215)
         then char_of (n + 32) else c)"

definition toLowerCase :: "string \<Rightarrow> string" where
  "toLowerCase s = map lower_char s"

text \<open>
  \<open>Number(s)\<close> on a string, after the grammar \<open>StringNumericLiteral\<close> of the language:
  white space is stripped; the empty string is 0; \<open>0x\<close>, \<open>0o\<close> and \<open>0b\<close> introduce an
  unsigned hexadecimal, octal or binary integer; otherwise an optional sign is followed
  by \<open>Infinity\<close> or by a decimal literal (digits with an optional fraction, or a fraction
  alone, then an optional exponent). The value is rounded to the nearest double. A
  string that is none of these is \<open>NaN\<close>.
\<close>

definition digit_of :: "char \<Rightarrow> int option" where
  "digit_of c =
     (let n = (of_char c :: int)
      in if 48 \<le> n \<and> n \<le> 57 then Some (n - 48)
         else if 97 \<le> n \<and> n \<le> 102 then Some (n - 87)
         else if 65 \<le> n \<and> n \<le> 70 then Some (n - 55)
         else None)"

definition is_digit_in :: "int \<Rightarrow> char \<Rightarrow> bool" where
  "is_digit_in b c = (case digit_of c of Some d \<Rightarrow> d < b | None \<Rightarrow> False)"

definition digits_value :: "int \<Rightarrow> string \<Rightarrow> int" where
  "digits_value b ds =
     foldl (\<lambda>acc c. b * acc + (case digit_of c of Some d \<Rightarrow> d | None \<Rightarrow> 0)) 0 ds"

definition unsigned_integer :: "string \<Rightarrow> int option" where
  "unsigned_integer ds =
     (if ds \<noteq> [] \<and> list_all (is_digit_in 10) ds then Some (digits_value 10 ds) else None)"

text \<open>The exponent part, or nothing: \<open>e\<close> or \<open>E\<close>, an optional sign, and digits.\<close>

definition exponent_part :: "string \<Rightarrow> int option" where
  "exponent_part s =
     (case s of
        [] \<Rightarrow> Some 0
      | c # r \<Rightarrow>
          if c = CHR ''e'' \<or> c = CHR ''E'' then
            (case r of
               [] \<Rightarrow> None
             | d # r' \<Rightarrow>
                 if d = CHR ''+'' then unsigned_integer r'
                 else if d = CHR ''-'' then map_option uminus (unsigned_integer r')
                 else unsigned_integer r)
          else None)"

text \<open>An unsigned decimal literal, as a pair \<open>(m, e)\<close> that stands for \<open>m * 10 ^ e\<close>.\<close>

definition unsigned_decimal :: "string \<Rightarrow> (int \<times> int) option" where
  "unsigned_decimal s =
     (let ip = takeWhile (is_digit_in 10) s;
          rest = dropWhile (is_digit_in 10) s
      in case rest of
           [] \<Rightarrow> if ip = [] then None else Some (digits_value 10 ip, 0)
         | c # r \<Rightarrow>
             if c = CHR ''.'' then
               (let fp = takeWhile (is_digit_in 10) r;
                    rest' = dropWhile (is_digit_in 10) r
                in if ip = [] \<and> fp = [] then None
                   else map_option (\<lambda>e. (digits_value 10 (ip @ fp), e - int (length fp)))
                          (exponent_part rest'))
             else if ip = [] then None
             else map_option (\<lambda>e. (digits_value 10 ip, e)) (exponent_part rest))"

definition non_decimal_integer :: "string \<Rightarrow> int option" where
  "non_decimal_integer s =
     (case s of
        z # p # ds \<Rightarrow>
          if z = CHR ''0'' \<and> ds \<noteq> [] then
            (if (p = CHR ''x'' \<or> p = CHR ''X'') \<and> list_all (is_digit_in 16) ds
               then Some (digits_value 16 ds)
             else if (p = CHR ''o'' \<or> p = CHR ''O'') \<and> list_all (is_digit_in 8) ds
               then Some (digits_value 8 ds)
             else if (p = CHR ''b'' \<or> p = CHR ''B'') \<and> list_all (is_digit_in 2) ds
               then Some (digits_value 2 ds)
             else None)
          else None
      | _ \<Rightarrow> None)"

definition signed_decimal :: "bool \<Rightarrow> string \<Rightarrow> jsnum" where
  "signed_decimal negative s =
     (if s = ''Infinity'' then (if negative then NegInf else PosInf)
      else (case unsigned_decimal s of
              None \<Rightarrow> NaN
            | Some (m, e) \<Rightarrow> double_of_decimal negative m e))"

definition StringToNumber :: "string \<Rightarrow> jsnum" where
  "StringToNumber s =
     (case trim s of
        [] \<Rightarrow> Fin 0 0
      | c # r \<Rightarrow>
          (case non_decimal_integer (c # r) of
             Some n \<Rightarrow> num n
           | None \<Rightarrow>
               if c = CHR ''+'' then signed_decimal False r
               else if c = CHR ''-'' then signed_decimal True r
               else signed_decimal False (c # r)))"

text \<open>The decimal digits of a non-negative integer.\<close>

function decimal :: "int \<Rightarrow> string" where
  "decimal n =
     (if n < 10 then [char_of (48 + n)]
      else decimal (n div 10) @ [char_of (48 + n mod 10)])"
  by pat_completeness auto
termination
  by (relation "measure nat") auto

declare decimal.simps [simp del]

text \<open>
  \<open>Number.prototype.toString\<close> of a positive finite number \<open>x = p / q\<close> with
  \<open>10 ^ (n - 1) \<le> x < 10 ^ n\<close>: the search for the least number \<open>k\<close> of digits such
  that some \<open>k\<close>-digit integer \<open>s\<close> has \<open>s * 10 ^ (n - k)\<close> rounding to \<open>x\<close>. Since
  rounding is monotone, only the two such values next to \<open>x\<close> need a look: \<open>lo\<close> below
  and \<open>hi\<close> above (which may be the next power of ten). Of two that qualify the nearer
  one wins, and the even one at a tie. Seventeen digits always determine a double.
\<close>

primrec shortest :: "nat \<Rightarrow> int \<Rightarrow> jsnum \<Rightarrow> int \<Rightarrow> int \<Rightarrow> int \<Rightarrow> int \<times> int" where
  "shortest 0 k x p q n =
     ((if n - k \<le> 0 then p * 10 ^ nat (k - n) div q else p div (q * 10 ^ nat (n - k))), n)"
| "shortest (Suc fuel) k x p q n =
     (let j = n - k;
          nu = (if j \<le> 0 then p * 10 ^ nat (- j) else p);
          de = (if j \<le> 0 then q else q * 10 ^ nat j);
          lo = nu div de;
          r = nu mod de;
          hi = lo + 1;
          below = (lo, n);
          above = (if hi = 10 ^ nat k then (10 ^ nat (k - 1), n + 1) else (hi, n));
          okl = (double_of_decimal False lo j = x);
          okh = (double_of_decimal False hi j = x)
      in if okl \<and> okh then
           (if 2 * r < de then below else if de < 2 * r then above
            else if even lo then below else above)
         else if okl then below
         else if okh then above
         else shortest fuel (k + 1) x p q n)"

text \<open>
  The digits \<open>s\<close> and the position \<open>n\<close> of the decimal point are laid out as the
  language prescribes: plain digits up to \<open>10 ^ 21\<close>, leading zeros down to \<open>10 ^ - 6\<close>,
  and the exponent notation beyond.
\<close>

definition positive_to_string :: "int \<Rightarrow> int \<Rightarrow> string" where
  "positive_to_string m e =
     (let p = (if 0 \<le> e then m * 2 ^ nat e else m);
          q = (if 0 \<le> e then 1 else 2 ^ nat (- e));
          d = decimal_length p - decimal_length q;
          n0 = (if scaled_le 10 d q p then d + 1 else d);
          (s, n) = shortest 17 1 (Fin m e) p q n0;
          ds = decimal s;
          k = int (length ds)
      in if k \<le> n \<and> n \<le> 21 then ds @ replicate (nat (n - k)) (CHR ''0'')
         else if 0 < n \<and> n \<le> 21 then take (nat n) ds @ CHR ''.'' # drop (nat n) ds
         else if - 6 < n \<and> n \<le> 0 then ''0.'' @ replicate (nat (- n)) (CHR ''0'') @ ds
         else
           (let ex = CHR ''e'' # (if n - 1 < 0 then CHR ''-'' else CHR ''+'') # decimal \<bar>n - 1\<bar>
            in case ds of
                 [] \<Rightarrow> ex
               | [c] \<Rightarrow> c # ex
               | c # rest \<Rightarrow> c # CHR ''.'' # rest @ ex))"

definition NumberToString :: "jsnum \<Rightarrow> string" where
  "NumberToString v =
     (case v of
        NaN \<Rightarrow> ''NaN''
      | PosInf \<Rightarrow> ''Infinity''
      | NegInf \<Rightarrow> ''-Infinity''
      | Fin m e \<Rightarrow>
          if m = 0 then ''0''
          else if m < 0 then CHR ''-'' # positive_to_string (- m) e
          else positive_to_string m e)"

subsection \<open>Conversion to a string\<close>

text \<open>The results of converting the elements, joined by commas; the first exception wins.\<close>

fun join_comma :: "(error + string) list \<Rightarrow> error + string" where
  "join_comma [] = Inr []"
| "join_comma (x # xs) =
     (case x of
        Inl e \<Rightarrow> Inl e
      | Inr s \<Rightarrow>
          (case join_comma xs of
             Inl e \<Rightarrow> Inl e
           | Inr t \<Rightarrow> Inr (if xs = [] then s else s @ CHR '','' # t)))"

text \<open>
  The abstract operation \<open>ToString\<close>, which the template literal \<open>`${v}`\<close> and
  \<open>Array.prototype.join\<close> apply. It throws on a symbol. An array joins the conversions
  of its elements, a hole, \<open>undefined\<close> and \<open>null\<close> counting as the empty string. An
  object is taken to have the default \<open>toString\<close>; a function prints its source text.
\<close>

fun ToString :: "jsval \<Rightarrow> error + string" where
  "ToString JUndefined = Inr ''undefined''"
| "ToString JNull = Inr ''null''"
| "ToString (JBool b) = Inr (if b then ''true'' else ''false'')"
| "ToString (JNum n) = Inr (NumberToString n)"
| "ToString (JStr s) = Inr s"
| "ToString (JBigInt i) = Inr (if i < 0 then CHR ''-'' # decimal (- i) else decimal i)"
| "ToString (JSymbol a d) = Inl (TypeError ''Cannot convert a Symbol value to a string'')"
| "ToString (JFunction a src) = Inr src"
| "ToString (JObject a ps) = Inr ''[object Object]''"
| "ToString (JArray a els named) =
     join_comma
       (map (\<lambda>el. case el of
                    None \<Rightarrow> Inr []
                  | Some v \<Rightarrow> if eq_null v then Inr [] else ToString v) els)"

text \<open>The function \<open>String(v)\<close>: a symbol prints its description, the rest is \<open>ToString\<close>.\<close>

definition js_String :: "jsval \<Rightarrow> error + string" where
  "js_String v =
     (case v of
        JSymbol a d \<Rightarrow> Inr (''Symbol('' @ d @ '')'')
      | _ \<Rightarrow> ToString v)"

subsection \<open>Properties\<close>

text \<open>
  The own enumerable string-keyed properties of a value, in iteration order: the
  properties that \<open>for ... in\<close> filtered by \<open>Object.hasOwn\<close>, \<open>Object.keys\<close> and
  \<open>Object.values\<close> all enumerate. An array has its indices that are not holes, in
  ascending order, and then its other properties.
\<close>

definition index_props :: "jsval option list \<Rightarrow> (string \<times> jsval) list" where
  "index_props els =
     concat (map (\<lambda>(i, el). case el of None \<Rightarrow> [] | Some v \<Rightarrow> [(decimal (int i), v)])
               (zip [0..<length els] els))"

fun ownProps :: "jsval \<Rightarrow> (string \<times> jsval) list" where
  "ownProps (JObject a ps) = ps"
| "ownProps (JArray a els named) = index_props els @ named"
| "ownProps v = []"

definition Object_keys :: "jsval \<Rightarrow> string list" where
  "Object_keys obj = map fst (ownProps obj)"

text \<open>
  The property read \<open>obj[key]\<close>. The library reads only keys that \<open>for ... in\<close> with
  \<open>Object.hasOwn\<close> or \<open>Object.keys\<close> has just returned, so the property is always an
  own one.
\<close>

definition get_prop :: "jsval \<Rightarrow> string \<Rightarrow> jsval" where
  "get_prop obj key = (case map_of (ownProps obj) key of Some v \<Rightarrow> v | None \<Rightarrow> JUndefined)"

text \<open>\<open>Object.values\<close> reads the value of each own enumerable key, in key order.\<close>

definition Object_values :: "jsval \<Rightarrow> jsval list" where
  "Object_values obj = map (get_prop obj) (Object_keys obj)"

text \<open>
  \<open>Array.prototype.filter\<close> and \<open>Array.prototype.some\<close> with a callback that may throw:
  the elements are visited in order, the first exception ends the scan, and \<open>some\<close>
  stops at the first element the callback accepts.
\<close>

fun array_filter :: "('a \<Rightarrow> error + bool) \<Rightarrow> 'a list \<Rightarrow> error + 'a list" where
  "array_filter p [] = Inr []"
| "array_filter p (x # xs) =
     (case p x of
        Inl e \<Rightarrow> Inl e
      | Inr keep \<Rightarrow>
          (case array_filter p xs of
             Inl e \<Rightarrow> Inl e
           | Inr ys \<Rightarrow> Inr (if keep then x # ys else ys)))"

fun array_some :: "('a \<Rightarrow> error + bool) \<Rightarrow> 'a list \<Rightarrow> error + bool" where
  "array_some p [] = Inr False"
| "array_some p (x # xs) =
     (case p x of
        Inl e \<Rightarrow> Inl e
      | Inr found \<Rightarrow> if found then Inr True else array_some p xs)"

section \<open>The library: \<open>src/enums.ts\<close>\<close>

subsection \<open>Options and conversion\<close>

text \<open>
  \<open>EnumOptions\<close>: every field is optional. The two hooks are caller-supplied functions
  and may throw, so they return a value or the exception.
\<close>

record EnumOptions =
  normalize :: "(jsval \<Rightarrow> error + jsval) option"
  ignoreCase :: "bool option"
  convert :: "bool option"
  converter :: "(jsval \<Rightarrow> error + jsval) option"

text \<open>The options object \<open>{}\<close>, the default of the wrappers' \<open>options\<close> parameter.\<close>

definition emptyOptions :: EnumOptions where
  "emptyOptions = \<lparr>normalize = None, ignoreCase = None, convert = None, converter = None\<rparr>"

definition defaultOptions :: "EnumOptions option \<Rightarrow> EnumOptions" where
  "defaultOptions options = (case options of None \<Rightarrow> emptyOptions | Some opts \<Rightarrow> opts)"

fun toNumber :: "jsval \<Rightarrow> jsval" where
  "toNumber (JNum n) = (if n = NaN then JUndefined else JNum n)"
| "toNumber (JStr s) =
     (let trimmed = trim s;
          converted = StringToNumber trimmed
      in if length trimmed > 0 \<and> converted \<noteq> NaN then JNum converted else JUndefined)"
| "toNumber v = JUndefined"

definition passthrough :: "'a \<Rightarrow> 'a" where
  "passthrough v = v"

definition lowerCaseIfString :: "jsval \<Rightarrow> jsval" where
  "lowerCaseIfString v = (case v of JStr s \<Rightarrow> JStr (toLowerCase s) | _ \<Rightarrow> v)"

text \<open>\<open>String(value)\<close> may throw, so the default converter returns a value or the exception.\<close>

definition defaultConverter :: "jsval \<Rightarrow> jstype \<Rightarrow> error + jsval" where
  "defaultConverter v toType =
     (if toType = TString \<and> typeof v \<noteq> TString then
        (case js_String v of Inl e \<Rightarrow> Inl e | Inr s \<Rightarrow> Inr (JStr s))
      else if toType = TNumber \<and> typeof v \<noteq> TNumber then Inr (toNumber v)
      else Inr v)"

definition createConverter ::
  "jstype \<Rightarrow> (jsval \<Rightarrow> error + jsval) option \<Rightarrow> jsval \<Rightarrow> error + jsval" where
  "createConverter toType customConverter =
     (case customConverter of
        Some custom \<Rightarrow> (\<lambda>v. custom v)
      | None \<Rightarrow> (\<lambda>v. defaultConverter v toType))"

subsection \<open>The equality predicate\<close>

text \<open>
  \<open>equalFn(options)(a, b)\<close>. \<open>options?.f\<close> on an omitted \<open>options\<close> is \<open>undefined\<close>, which
  is \<open>Option.bind\<close>. The hooks run in the source's order, \<open>normalize(a)\<close>,
  \<open>normalize(b)\<close>, \<open>convert(a1)\<close>, \<open>convert(b1)\<close>, and the first exception ends the call.
\<close>

definition equalFn :: "EnumOptions option \<Rightarrow> jsval \<Rightarrow> jsval \<Rightarrow> error + bool" where
  "equalFn options a b =
     (let norm = (case Option.bind options normalize of
                    Some f \<Rightarrow> f
                  | None \<Rightarrow> (\<lambda>v. Inr (passthrough v)));
          lowerCase = (if Option.bind options ignoreCase = Some True
                       then lowerCaseIfString else passthrough);
          expectedType = (if typeof a = TString then TString else TNumber)
      in case norm a of
           Inl e \<Rightarrow> Inl e
         | Inr a1 \<Rightarrow>
        (case norm b of
           Inl e \<Rightarrow> Inl e
         | Inr b1 \<Rightarrow>
        (let conv = (if Option.bind options convert = Some True
                     then createConverter expectedType (Option.bind options converter)
                     else (\<lambda>v. Inr (passthrough v)))
         in case conv a1 of
              Inl e \<Rightarrow> Inl e
            | Inr a2 \<Rightarrow>
           (case conv b1 of
              Inl e \<Rightarrow> Inl e
            | Inr b2 \<Rightarrow>
                if expectedType \<noteq> TString then Inr (strict_eq a2 b2)
                else Inr (strict_eq (lowerCase a2) (lowerCase b2))))))"

subsection \<open>The structural validator\<close>

text \<open>
  The \<open>for (const key in enumObj)\<close> loop of both validators, over the keys that pass
  the test \<open>Object.hasOwn(enumObj, key)\<close>. A key that \<open>for ... in\<close> yields is always a
  string, so the test \<open>typeof key !== 'string'\<close> never fires and has no branch here. The
  message of \<open>validateEnumLike\<close> is a template literal, which converts the value with
  \<open>ToString\<close>.
\<close>

fun isEnumLike_loop :: "jsval \<Rightarrow> string list \<Rightarrow> bool" where
  "isEnumLike_loop enumObj [] = True"
| "isEnumLike_loop enumObj (key # rest) =
     (let v = get_prop enumObj key
      in if typeof v \<noteq> TString \<and> typeof v \<noteq> TNumber then False
         else isEnumLike_loop enumObj rest)"

definition isEnumLike :: "jsval \<Rightarrow> bool" where
  "isEnumLike enumObj =
     (if \<not> truthy enumObj \<or> typeof enumObj \<noteq> TObject then False
      else isEnumLike_loop enumObj (Object_keys enumObj))"

fun validateEnumLike_loop :: "jsval \<Rightarrow> string list \<Rightarrow> error + unit" where
  "validateEnumLike_loop enumObj [] = Inr ()"
| "validateEnumLike_loop enumObj (key # rest) =
     (let v = get_prop enumObj key
      in if typeof v \<noteq> TString \<and> typeof v \<noteq> TNumber then
           (case ToString v of
              Inl e \<Rightarrow> Inl e
            | Inr s \<Rightarrow>
                Inl (Error (''Invalid enum value: '' @ s @ ''. Expected string or number.'')))
         else validateEnumLike_loop enumObj rest)"

definition validateEnumLike :: "jsval \<Rightarrow> error + unit" where
  "validateEnumLike enumObj =
     (if \<not> truthy enumObj \<or> typeof enumObj \<noteq> TObject
      then Inl (Error ''The enum object is required.'')
      else validateEnumLike_loop enumObj (Object_keys enumObj))"

subsection \<open>Lookup functions\<close>

text \<open>
  Each lookup validates the mapping, returns at once on a \<open>null\<close> or \<open>undefined\<close>
  search term, and otherwise filters the keys or the values with the predicate. The
  three-way test on \<open>found.length\<close> (0, more than 1, else element 0) is the case
  distinction on the list. A result of type \<open>T | undefined\<close> is a \<open>jsval\<close>; a key is
  returned as the string value \<open>JStr\<close>.
\<close>

definition enumValueByValue :: "jsval \<Rightarrow> jsval \<Rightarrow> EnumOptions option \<Rightarrow> error + jsval" where
  "enumValueByValue enumObj val options =
     (case validateEnumLike enumObj of
        Inl e \<Rightarrow> Inl e
      | Inr u \<Rightarrow>
          if eq_null val then Inr JUndefined
          else (case array_filter (\<lambda>v. equalFn options v val) (Object_values enumObj) of
                  Inl e \<Rightarrow> Inl e
                | Inr found \<Rightarrow>
                    (case found of
                       [] \<Rightarrow> Inr JUndefined
                     | [v] \<Rightarrow> Inr v
                     | _ \<Rightarrow> Inl (Error ''Enum values are not unique. Cannot get value by value.''))))"

definition enumValueByKey :: "jsval \<Rightarrow> jsval \<Rightarrow> EnumOptions option \<Rightarrow> error + jsval" where
  "enumValueByKey enumObj key options =
     (case validateEnumLike enumObj of
        Inl e \<Rightarrow> Inl e
      | Inr u \<Rightarrow>
          if eq_null key then Inr JUndefined
          else (case array_filter (\<lambda>k. equalFn options (JStr k) key) (Object_keys enumObj) of
                  Inl e \<Rightarrow> Inl e
                | Inr found \<Rightarrow>
                    (case found of
                       [] \<Rightarrow> Inr JUndefined
                     | [foundKey] \<Rightarrow> Inr (get_prop enumObj foundKey)
                     | _ \<Rightarrow> Inl (Error ''Enum keys are not unique. Cannot get value by key.''))))"

definition enumKeysByValue :: "jsval \<Rightarrow> jsval \<Rightarrow> EnumOptions option \<Rightarrow> error + string list" where
  "enumKeysByValue enumObj val options =
     (case validateEnumLike enumObj of
        Inl e \<Rightarrow> Inl e
      | Inr u \<Rightarrow>
          if eq_null val then Inr []
          else array_filter (\<lambda>key. equalFn options (get_prop enumObj key) val)
                 (Object_keys enumObj))"

definition enumKeyByKey :: "jsval \<Rightarrow> jsval \<Rightarrow> EnumOptions option \<Rightarrow> error + jsval" where
  "enumKeyByKey enumObj key options =
     (case validateEnumLike enumObj of
        Inl e \<Rightarrow> Inl e
      | Inr u \<Rightarrow>
          if eq_null key then Inr JUndefined
          else (case array_filter (\<lambda>k. equalFn options (JStr k) key) (Object_keys enumObj) of
                  Inl e \<Rightarrow> Inl e
                | Inr found \<Rightarrow>
                    (case found of
                       [] \<Rightarrow> Inr JUndefined
                     | [foundKey] \<Rightarrow> Inr (JStr foundKey)
                     | _ \<Rightarrow> Inl (Error ''Enum keys are not unique. Cannot get key by key.''))))"

definition enumKeyByValue :: "jsval \<Rightarrow> jsval \<Rightarrow> EnumOptions option \<Rightarrow> error + jsval" where
  "enumKeyByValue enumObj val options =
     (case validateEnumLike enumObj of
        Inl e \<Rightarrow> Inl e
      | Inr u \<Rightarrow>
          if eq_null val then Inr JUndefined
          else (case array_filter (\<lambda>key. equalFn options (get_prop enumObj key) val) (Object_keys enumObj) of
                  Inl e \<Rightarrow> Inl e
                | Inr found \<Rightarrow>
                    (case found of
                       [] \<Rightarrow> Inr JUndefined
                     | [foundKey] \<Rightarrow> Inr (JStr foundKey)
                     | _ \<Rightarrow> Inl (Error ''Enum values are not unique. Cannot get key by value.''))))"

subsection \<open>Wrappers\<close>

text \<open>
  The wrappers take a search term of type \<open>unknown\<close> and an \<open>options\<close> parameter whose
  default is \<open>{}\<close>. In \<open>isEnumKey\<close> and \<open>toEnumKey\<close> the call \<open>String(key)\<close> may throw.
\<close>

definition isEnumValue :: "jsval \<Rightarrow> jsval \<Rightarrow> EnumOptions option \<Rightarrow> error + bool" where
  "isEnumValue enumObj val options =
     (case validateEnumLike enumObj of
        Inl e \<Rightarrow> Inl e
      | Inr u \<Rightarrow>
          if eq_null val then Inr False
          else array_some (\<lambda>v. equalFn (Some (defaultOptions options)) v val)
                 (Object_values enumObj))"

definition toEnumValue :: "jsval \<Rightarrow> jsval \<Rightarrow> EnumOptions option \<Rightarrow> error + jsval" where
  "toEnumValue enumObj val options =
     (case validateEnumLike enumObj of
        Inl e \<Rightarrow> Inl e
      | Inr u \<Rightarrow>
          if eq_null val then Inr JUndefined
          else (case array_filter (\<lambda>v. equalFn (Some (defaultOptions options)) v val)
                       (Object_values enumObj) of
                  Inl e \<Rightarrow> Inl e
                | Inr found \<Rightarrow>
                    (case found of
                       [] \<Rightarrow> Inr JUndefined
                     | [v] \<Rightarrow> Inr v
                     | _ \<Rightarrow> Inl (Error ''Enum values are not unique. Cannot get value by value.''))))"

definition isEnumKey :: "jsval \<Rightarrow> jsval \<Rightarrow> EnumOptions option \<Rightarrow> error + bool" where
  "isEnumKey enumObj key options =
     (case validateEnumLike enumObj of
        Inl e \<Rightarrow> Inl e
      | Inr u \<Rightarrow>
          if eq_null key then Inr False
          else
            (case (if convert (defaultOptions options) = Some True
                   then (case js_String key of Inl e \<Rightarrow> Inl e | Inr s \<Rightarrow> Inr (JStr s))
                   else Inr key) of
               Inl e \<Rightarrow> Inl e
             | Inr compareKey \<Rightarrow>
                 if typeof compareKey \<noteq> TString then Inr False
                 else array_some
                        (\<lambda>k. equalFn (Some (defaultOptions options)) (JStr k) compareKey)
                        (Object_keys enumObj)))"

definition toEnumKey :: "jsval \<Rightarrow> jsval \<Rightarrow> EnumOptions option \<Rightarrow> error + jsval" where
  "toEnumKey enumObj key options =
     (case validateEnumLike enumObj of
        Inl e \<Rightarrow> Inl e
      | Inr u \<Rightarrow>
          if eq_null key then Inr JUndefined
          else
            (case (if convert (defaultOptions options) = Some True
                   then (case js_String key of Inl e \<Rightarrow> Inl e | Inr s \<Rightarrow> Inr (JStr s))
                   else Inr key) of
               Inl e \<Rightarrow> Inl e
             | Inr compareKey \<Rightarrow>
                 if typeof compareKey \<noteq> TString then Inr JUndefined
                 else (case array_filter
                              (\<lambda>k. equalFn (Some (defaultOptions options)) (JStr k) compareKey)
                              (Object_keys enumObj) of
                         Inl e \<Rightarrow> Inl e
                       | Inr found \<Rightarrow>
                           (case found of
                              [] \<Rightarrow> Inr JUndefined
                            | [foundKey] \<Rightarrow> Inr (JStr foundKey)
                            | _ \<Rightarrow> Inl (Error ''Enum keys are not unique. Cannot get key by key.'')))))"

definition toEnumKeys :: "jsval \<Rightarrow> jsval \<Rightarrow> EnumOptions option \<Rightarrow> error + string list" where
  "toEnumKeys enumObj val options =
     (case validateEnumLike enumObj of
        Inl e \<Rightarrow> Inl e
      | Inr u \<Rightarrow>
          if eq_null val then Inr []
          else array_filter
                 (\<lambda>key. equalFn (Some (defaultOptions options)) (get_prop enumObj key) val)
                 (Object_keys enumObj))"

section \<open>Fixtures and specification-side definitions\<close>

subsection \<open>Option bundles\<close>

definition convertOnly :: "EnumOptions option" where
  "convertOnly =
     Some \<lparr>normalize = None, ignoreCase = None, convert = Some True, converter = None\<rparr>"

definition ignoreCaseOnly :: "EnumOptions option" where
  "ignoreCaseOnly =
     Some \<lparr>normalize = None, ignoreCase = Some True, convert = None, converter = None\<rparr>"

definition convertWith :: "(jsval \<Rightarrow> error + jsval) \<Rightarrow> EnumOptions option" where
  "convertWith c =
     Some \<lparr>normalize = None, ignoreCase = None, convert = Some True, converter = Some c\<rparr>"

definition normalizeWith :: "(jsval \<Rightarrow> error + jsval) \<Rightarrow> EnumOptions option" where
  "normalizeWith f =
     Some \<lparr>normalize = Some f, ignoreCase = None, convert = None, converter = None\<rparr>"

text \<open>\<open>{normalize: String, convert: true}\<close>.\<close>

definition stringifyConvert :: "EnumOptions option" where
  "stringifyConvert =
     Some \<lparr>normalize =
             Some (\<lambda>v. case js_String v of Inl e \<Rightarrow> Inl e | Inr s \<Rightarrow> Inr (JStr s)),
           ignoreCase = None, convert = Some True, converter = None\<rparr>"

text \<open>Options whose hooks throw whenever they are called.\<close>

definition throwingHooks :: "EnumOptions option" where
  "throwingHooks =
     Some \<lparr>normalize = Some (\<lambda>v. Inl (Error ''normalize called'')), ignoreCase = Some True,
           convert = Some True, converter = Some (\<lambda>v. Inl (Error ''converter called''))\<rparr>"

text \<open>
  The hook \<open>v => { if (v === 'boom') throw new Error('hook'); return v; }\<close> and the
  converter \<open>() => 0\<close>.
\<close>

definition throwOnBoom :: "jsval \<Rightarrow> error + jsval" where
  "throwOnBoom v = (if strict_eq v (JStr ''boom'') then Inl (Error ''hook'') else Inr v)"

definition constantZero :: "jsval \<Rightarrow> error + jsval" where
  "constantZero v = Inr (JNum (num 0))"

subsection \<open>Custom converters\<close>

text \<open>\<open>Number(v)\<close> and the product \<open>n * 2\<close>.\<close>

fun js_Number :: "jsval \<Rightarrow> error + jsnum" where
  "js_Number JUndefined = Inr NaN"
| "js_Number JNull = Inr (num 0)"
| "js_Number (JBool b) = Inr (num (if b then 1 else 0))"
| "js_Number (JNum n) = Inr n"
| "js_Number (JStr s) = Inr (StringToNumber s)"
| "js_Number (JBigInt i) = Inr (num i)"
| "js_Number (JSymbol a d) = Inl (TypeError ''Cannot convert a Symbol value to a number'')"
| "js_Number v = (case ToString v of Inl e \<Rightarrow> Inl e | Inr s \<Rightarrow> Inr (StringToNumber s))"

definition times2 :: "jsnum \<Rightarrow> jsnum" where
  "times2 n = (case n of Fin m e \<Rightarrow> double_of_binary m (e + 1) | _ \<Rightarrow> n)"

text \<open>The converter \<open>s => Number(s) * 2\<close> of the specification's scenario 5.\<close>

definition doublingConverter :: "jsval \<Rightarrow> error + jsval" where
  "doublingConverter s =
     (case js_Number s of Inl e \<Rightarrow> Inl e | Inr n \<Rightarrow> Inr (JNum (times2 n)))"

text \<open>
  The converter \<open>customNumConverter\<close> of the repository's test "should prefer custom
  converter over default converter": it doubles the numeric parse of a string, returns a
  number as it is, and returns \<open>undefined\<close> for anything else.
\<close>

definition customNumConverter :: "jsval \<Rightarrow> error + jsval" where
  "customNumConverter v =
     (if typeof v = TString then
        (case js_Number v of
           Inl e \<Rightarrow> Inl e
         | Inr n \<Rightarrow> Inr (if n = NaN then JUndefined else JNum (times2 n)))
      else if typeof v = TNumber then Inr v
      else Inr JUndefined)"

subsection \<open>Mappings\<close>

text \<open>
  The mappings of the specification's scenarios and of the repository's tests:
  \<open>{Two: 2}\<close>, \<open>{A: 'x'}\<close>, \<open>{A: NaN}\<close>, \<open>{A: 'x', B: 'y'}\<close>,
  \<open>{A: 'x', B: 'x', C: 'boom'}\<close>, \<open>{One: 1, Uno: '1'}\<close>, the string enum
  \<open>Color {Red = '#ff0000', Blue = '#0000ff', AlsoBlue = '#0000ff'}\<close> and
  \<open>customEnumLike = {A: 'ValueA', B: 'ValueB', C: 123}\<close>.
\<close>

definition enumTwo :: jsval where
  "enumTwo = JObject 0 [(''Two'', JNum (num 2))]"

definition enumAx :: jsval where
  "enumAx = JObject 0 [(''A'', JStr ''x'')]"

definition enumNaN :: jsval where
  "enumNaN = JObject 0 [(''A'', JNum NaN)]"

definition enumXY :: jsval where
  "enumXY = JObject 0 [(''A'', JStr ''x''), (''B'', JStr ''y'')]"

definition enumXXBoom :: jsval where
  "enumXXBoom = JObject 0 [(''A'', JStr ''x''), (''B'', JStr ''x''), (''C'', JStr ''boom'')]"

definition enumOneUno :: jsval where
  "enumOneUno = JObject 0 [(''One'', JNum (num 1)), (''Uno'', JStr ''1'')]"

definition enumColor :: jsval where
  "enumColor =
     JObject 0 [(''Red'', JStr ''#ff0000''), (''Blue'', JStr ''#0000ff''),
                (''AlsoBlue'', JStr ''#0000ff'')]"

definition customEnumLike :: jsval where
  "customEnumLike =
     JObject 0 [(''A'', JStr ''ValueA''), (''B'', JStr ''ValueB''), (''C'', JNum (num 123))]"

text \<open>
  The objects that TypeScript numeric enums compile to. A numeric enum also maps each
  value back to its member's name (a later member with the same value overwrites the
  name), and the integer-like keys come first in the iteration order. In turn:
  \<open>enum NumericEnum {One = 1, Two = 2, Three = 3}\<close>, \<open>enum {One = 1, First = 1}\<close>,
  \<open>enum {abc = 1}\<close> and \<open>enum {NaN = 1}\<close>.
\<close>

definition numericEnum :: jsval where
  "numericEnum =
     JObject 0 [(''1'', JStr ''One''), (''2'', JStr ''Two''), (''3'', JStr ''Three''),
                (''One'', JNum (num 1)), (''Two'', JNum (num 2)), (''Three'', JNum (num 3))]"

definition enumOneFirst :: jsval where
  "enumOneFirst =
     JObject 0 [(''1'', JStr ''First''), (''One'', JNum (num 1)), (''First'', JNum (num 1))]"

definition enumAbc :: jsval where
  "enumAbc = JObject 0 [(''1'', JStr ''abc''), (''abc'', JNum (num 1))]"

definition enumNamedNaN :: jsval where
  "enumNamedNaN = JObject 0 [(''1'', JStr ''NaN''), (''NaN'', JNum (num 1))]"

text \<open>
  Arrays: the result of \<open>'a'.match(/a/)\<close>, whose only element is the string \<open>'a'\<close> and
  which carries the properties \<open>index\<close>, \<open>input\<close> and \<open>groups\<close> (the last one
  \<open>undefined\<close>); the result of \<open>Object.assign(['x'], {flag: true})\<close>; and
  \<open>Object.assign(['a', , 2], {unit: 'px'})\<close>, with a hole.
\<close>

definition matchResult :: jsval where
  "matchResult =
     JArray 0 [Some (JStr ''a'')]
       [(''index'', JNum (num 0)), (''input'', JStr ''a''), (''groups'', JUndefined)]"

definition flaggedArray :: jsval where
  "flaggedArray = JArray 0 [Some (JStr ''x'')] [(''flag'', JBool True)]"

definition sparseArray :: jsval where
  "sparseArray = JArray 0 [Some (JStr ''a''), None, Some (JNum (num 2))] [(''unit'', JStr ''px'')]"

text \<open>The elements of an array that are not holes.\<close>

definition present :: "jsval option list \<Rightarrow> jsval list" where
  "present els = concat (map (\<lambda>el. case el of None \<Rightarrow> [] | Some v \<Rightarrow> [v]) els)"

text \<open>\<open>Array.isArray\<close>, and the elements of an array in index order, holes skipped.\<close>

fun isArray :: "jsval \<Rightarrow> bool" where
  "isArray (JArray a els named) = True"
| "isArray v = False"

fun elements :: "jsval \<Rightarrow> jsval list" where
  "elements (JArray a els named) = present els"
| "elements v = []"

subsection \<open>The round trip from a key to its value and back\<close>

text \<open>\<open>enumKeyByValue(obj, enumValueByKey(obj, K))\<close> with default options.\<close>

definition keyOfValueOfKey :: "jsval \<Rightarrow> string \<Rightarrow> error + jsval" where
  "keyOfValueOfKey obj K =
     (case enumValueByKey obj (JStr K) None of
        Inl e \<Rightarrow> Inl e
      | Inr v \<Rightarrow> enumKeyByValue obj v None)"

subsection \<open>The predicate as the specification describes it\<close>

text \<open>
  The five steps of the specification's section 4.2: normalize both operands, determine
  the expected type, convert, case-fold, compare. The operand whose type step 2 reads is
  the parameter \<open>typeSource\<close>, a choice between the candidate as given and the candidate
  after normalization; the input is not among the choices.
\<close>

definition equalFn_spec ::
  "(jsval \<Rightarrow> jsval \<Rightarrow> jsval) \<Rightarrow> EnumOptions option \<Rightarrow> jsval \<Rightarrow> jsval \<Rightarrow> error + bool" where
  "equalFn_spec typeSource options candidate input =
     (let norm = (case Option.bind options normalize of
                    Some f \<Rightarrow> f
                  | None \<Rightarrow> (\<lambda>v. Inr v))
      in case norm candidate of
           Inl e \<Rightarrow> Inl e
         | Inr candidate1 \<Rightarrow>
        (case norm input of
           Inl e \<Rightarrow> Inl e
         | Inr input1 \<Rightarrow>
        (let expected = (if typeof (typeSource candidate candidate1) = TString
                         then TString else TNumber);
             conv = (if Option.bind options convert = Some True
                     then (case Option.bind options converter of
                             Some custom \<Rightarrow> custom
                           | None \<Rightarrow> (\<lambda>v. defaultConverter v expected))
                     else (\<lambda>v. Inr v))
         in case conv candidate1 of
              Inl e \<Rightarrow> Inl e
            | Inr candidate2 \<Rightarrow>
           (case conv input1 of
              Inl e \<Rightarrow> Inl e
            | Inr input2 \<Rightarrow>
                if Option.bind options ignoreCase = Some True \<and> expected = TString
                then Inr (strict_eq (lowerCaseIfString candidate2) (lowerCaseIfString input2))
                else Inr (strict_eq candidate2 input2)))))"

definition normalized_candidate :: "jsval \<Rightarrow> jsval \<Rightarrow> jsval" where
  "normalized_candidate raw normalized = normalized"

definition raw_candidate :: "jsval \<Rightarrow> jsval \<Rightarrow> jsval" where
  "raw_candidate raw normalized = raw"

section \<open>Auxiliary lemmas\<close>

lemma array_filter_total:
  "(\<And>x. x \<in> set xs \<Longrightarrow> p x = Inr (q x)) \<Longrightarrow> array_filter p xs = Inr (filter q xs)"
  by (induction xs) auto

lemma array_filter_defined:
  "(\<And>x. x \<in> set xs \<Longrightarrow> \<not> isl (p x)) \<Longrightarrow>
   array_filter p xs = Inr (filter (\<lambda>x. p x = Inr True) xs)"
proof (rule array_filter_total)
  fix x
  assume "x \<in> set xs" and "\<And>x. x \<in> set xs \<Longrightarrow> \<not> isl (p x)"
  then have "\<not> isl (p x)"
    by blast
  then show "p x = Inr (p x = Inr True)"
    by (cases "p x") auto
qed

lemma two_members:
  "a \<in> set ys \<Longrightarrow> b \<in> set ys \<Longrightarrow> a \<noteq> b \<Longrightarrow> \<exists>x y zs. ys = x # y # zs"
  by (cases ys; cases "tl ys") auto

lemma filter_eq_single: "distinct xs \<Longrightarrow> K \<in> set xs \<Longrightarrow> filter (\<lambda>k. k = K) xs = [K]"
  by (induction xs) (auto simp: filter_empty_conv)

lemma equalFn_None: "equalFn None a b = Inr (strict_eq a b)"
  by (simp add: equalFn_def passthrough_def)

lemma equalFn_empty: "equalFn (Some emptyOptions) a b = equalFn None a b"
  by (simp add: equalFn_def emptyOptions_def)

lemma equalFn_defaultOptions: "equalFn (Some (defaultOptions options)) a b = equalFn options a b"
  by (cases options) (simp_all add: defaultOptions_def equalFn_empty)

lemma validate_loop_iff:
  "isEnumLike_loop obj ks \<longleftrightarrow> validateEnumLike_loop obj ks = Inr ()"
  by (induction ks) (auto simp: Let_def split: sum.splits)

lemma validate_iff: "isEnumLike v \<longleftrightarrow> validateEnumLike v = Inr ()"
  by (simp add: isEnumLike_def validateEnumLike_def validate_loop_iff)

lemma isEnumLike_loop_all:
  "isEnumLike_loop obj ks \<longleftrightarrow>
   (\<forall>k \<in> set ks. typeof (get_prop obj k) = TString \<or> typeof (get_prop obj k) = TNumber)"
  by (induction ks) (auto simp: Let_def)

lemma get_prop_in_values:
  "k \<in> set (Object_keys obj) \<Longrightarrow> get_prop obj k \<in> set (Object_values obj)"
  by (simp add: Object_values_def)

lemma valid_values:
  "isEnumLike obj \<Longrightarrow> v \<in> set (Object_values obj) \<Longrightarrow>
   typeof v = TString \<or> typeof v = TNumber"
  by (auto simp: isEnumLike_def isEnumLike_loop_all Object_values_def split: if_splits)

lemma get_prop_own:
  assumes "k \<in> set (Object_keys obj)"
  shows "(k, get_prop obj k) \<in> set (ownProps obj)"
proof -
  from assms have "map_of (ownProps obj) k \<noteq> None"
    by (simp add: Object_keys_def map_of_eq_None_iff)
  then obtain v where v: "map_of (ownProps obj) k = Some v"
    by blast
  then have "(k, v) \<in> set (ownProps obj)"
    by (rule map_of_SomeD)
  with v show ?thesis
    by (simp add: get_prop_def)
qed

lemma index_props_present: "(k, v) \<in> set (index_props els) \<Longrightarrow> v \<in> set (present els)"
  by (auto simp: index_props_def present_def split: option.splits dest: set_zip_rightD)

lemma strict_eq_num: "typeof v = TNumber \<Longrightarrow> n \<noteq> NaN \<Longrightarrow> strict_eq v (JNum n) = (v = JNum n)"
  by (cases v) auto

lemma strict_eq_undefined: "typeof v = TNumber \<Longrightarrow> strict_eq v JUndefined = False"
  by (cases v) auto

lemma strict_eq_NaN: "typeof v = TNumber \<Longrightarrow> strict_eq v (JNum NaN) = False"
  by (cases v) auto

lemma strict_eq_enum_value:
  "typeof v = TString \<or> typeof v = TNumber \<Longrightarrow> v \<noteq> JNum NaN \<Longrightarrow>
   strict_eq w v = (w = v)"
  by (cases v; cases w) auto

subsection \<open>The built-in operations on examples\<close>

text \<open>
  \<open>Number\<close> rounds to the nearest double (\<open>2 ^ 53 + 1\<close> is not one), reads fractions,
  octal and binary literals and the infinities, and refuses a sign before a radix prefix
  and a numeric separator.
\<close>

lemma StringToNumber_examples:
  "StringToNumber ''9007199254740993'' = num 9007199254740992 \<and>
   StringToNumber ''0.1'' = Fin 3602879701896397 (- 55) \<and>
   StringToNumber ''-Infinity'' = NegInf \<and>
   StringToNumber ''0o17'' = num 15 \<and>
   StringToNumber ''0b101'' = num 5 \<and>
   StringToNumber ''+0x10'' = NaN \<and>
   StringToNumber ''1_000'' = NaN"
  by code_simp

text \<open>\<open>String\<close> on numbers: the exponent notation starts at \<open>10 ^ 21\<close>.\<close>

lemma NumberToString_examples:
  "NumberToString (num 123) = ''123'' \<and>
   NumberToString (num (- 7)) = ''-7'' \<and>
   NumberToString (Fin 1 (- 1)) = ''0.5'' \<and>
   NumberToString (num (10 ^ 21)) = ''1e+21''"
  by code_simp

text \<open>
  \<open>String\<close> prints a symbol, while the conversion of an array that holds a symbol
  throws; so does the template literal on a symbol.
\<close>

lemma String_examples:
  "js_String (JSymbol 0 ''d'') = Inr ''Symbol(d)'' \<and>
   ToString (JSymbol 0 ''d'') = Inl (TypeError ''Cannot convert a Symbol value to a string'') \<and>
   js_String (JArray 0 [Some (JSymbol 1 [])] []) =
     Inl (TypeError ''Cannot convert a Symbol value to a string'') \<and>
   js_String (JArray 0 [Some (JNum (num 1)), None, Some JNull, Some (JStr ''a'')] []) =
     Inr ''1,,,a''"
  by code_simp

text \<open>
  The exception of \<open>String\<close> reaches the caller of the library: a symbol inside an array
  as the search term of \<open>toEnumKey\<close> with \<open>convert\<close> set, and as a property value in the
  message of \<open>validateEnumLike\<close>.
\<close>

lemma String_exception_propagates:
  "toEnumKey enumAx (JArray 0 [Some (JSymbol 1 [])] []) convertOnly =
     Inl (TypeError ''Cannot convert a Symbol value to a string'') \<and>
   isEnumKey enumAx (JArray 0 [Some (JSymbol 1 [])] []) convertOnly =
     Inl (TypeError ''Cannot convert a Symbol value to a string'') \<and>
   toEnumValue enumAx (JArray 0 [Some (JSymbol 1 [])] []) convertOnly =
     Inl (TypeError ''Cannot convert a Symbol value to a string'') \<and>
   validateEnumLike (JObject 0 [(''A'', JSymbol 1 [])]) =
     Inl (TypeError ''Cannot convert a Symbol value to a string'') \<and>
   validateEnumLike (JObject 0 [(''A'', JArray 1 [Some (JSymbol 2 [])] [])]) =
     Inl (TypeError ''Cannot convert a Symbol value to a string'')"
  by code_simp

subsection \<open>Trimming\<close>

text \<open>Trimming twice is trimming once, so \<open>Number\<close> does not see the white space around.\<close>

lemma dropWhile_rev_trim: "dropWhile is_ws (trim s) = trim s"
proof (cases "trim s")
  case Nil
  then show ?thesis by simp
next
  case (Cons c cs)
  let ?a = "dropWhile is_ws s"
  let ?b = "dropWhile is_ws (rev ?a)"
  from Cons have b: "?b \<noteq> []"
    by (auto simp: trim_def)
  then have a: "?a \<noteq> []"
    by (metis dropWhile.simps(1) rev.simps(1))
  have "rev ?a = takeWhile is_ws (rev ?a) @ ?b"
    by simp
  with b have "last (rev ?a) = last ?b"
    by (metis last_appendR)
  with a have "last ?b = hd ?a"
    by (simp add: last_rev)
  moreover from a have "\<not> is_ws (hd ?a)"
    by (rule hd_dropWhile)
  moreover from b have "hd (trim s) = last ?b"
    by (simp add: trim_def hd_rev)
  ultimately have "\<not> is_ws (hd (trim s))"
    by simp
  with Cons show ?thesis
    by simp
qed

lemma trim_trim: "trim (trim s) = trim s"
proof -
  have "trim (trim s) = rev (dropWhile is_ws (rev (trim s)))"
    by (simp add: trim_def [of "trim s"] dropWhile_rev_trim)
  also have "rev (trim s) = dropWhile is_ws (rev (dropWhile is_ws s))"
    by (simp add: trim_def)
  also have "rev (dropWhile is_ws (dropWhile is_ws (rev (dropWhile is_ws s)))) = trim s"
    by (simp add: trim_def)
  finally show ?thesis .
qed

lemma StringToNumber_trim: "StringToNumber (trim s) = StringToNumber s"
  by (simp add: StringToNumber_def trim_trim)

lemma defaultConverter_number:
  "defaultConverter w TNumber = Inr (if typeof w = TNumber then w else toNumber w)"
  by (simp add: defaultConverter_def)

lemma equalFn_convertOnly_number:
  "typeof v = TNumber \<Longrightarrow>
   equalFn convertOnly v w = Inr (strict_eq v (if typeof w = TNumber then w else toNumber w))"
  by (simp add: equalFn_def convertOnly_def createConverter_def defaultConverter_number
        passthrough_def)

lemma equalFn_convertOnly_string:
  "equalFn convertOnly (JStr c) w =
     (case js_String w of Inl e \<Rightarrow> Inl e | Inr t \<Rightarrow> Inr (c = t))"
  by (cases "typeof w = TString"; cases w)
     (simp_all add: equalFn_def convertOnly_def createConverter_def defaultConverter_def
        js_String_def passthrough_def split: sum.splits)

lemma toNumber_one: "toNumber (JStr ''1'') = JNum (num 1)"
  by code_simp

lemma toNumber_abc: "toNumber (JStr ''abc'') = JUndefined"
  by code_simp

lemma num_one_not_NaN: "num 1 \<noteq> NaN"
  by code_simp

lemma match_one:
  assumes "typeof v = TString \<or> typeof v = TNumber"
  shows "equalFn convertOnly v (JStr ''1'') = Inr (v = JNum (num 1) \<or> v = JStr ''1'')"
proof (cases v)
  case (JStr c)
  then show ?thesis
    by (simp add: equalFn_convertOnly_string js_String_def)
next
  case (JNum n)
  then show ?thesis
    by (auto simp: equalFn_convertOnly_number toNumber_one num_one_not_NaN
          simp del: toNumber.simps)
qed (use assms in auto)

lemma match_abc:
  assumes "typeof v = TString \<or> typeof v = TNumber"
  shows "equalFn convertOnly v (JStr ''abc'') = Inr (v = JStr ''abc'')"
proof (cases v)
  case (JStr c)
  then show ?thesis
    by (simp add: equalFn_convertOnly_string js_String_def)
next
  case (JNum n)
  then show ?thesis
    by (simp add: equalFn_convertOnly_number toNumber_abc del: toNumber.simps)
qed (use assms in auto)

lemma match_NaN:
  assumes "typeof v = TString \<or> typeof v = TNumber"
  shows "equalFn convertOnly v (JNum NaN) = Inr (v = JStr ''NaN'')"
proof (cases v)
  case (JStr c)
  then show ?thesis
    by (simp add: equalFn_convertOnly_string js_String_def NumberToString_def)
next
  case (JNum n)
  then show ?thesis
    by (simp add: equalFn_convertOnly_number)
qed (use assms in auto)

text \<open>
  The scan of \<open>toEnumValue\<close> over a valid mapping with a predicate that is a total test
  \<open>q\<close> on the values of the mapping.
\<close>

lemma toEnumValue_scan:
  assumes valid: "isEnumLike obj" and search: "\<not> eq_null s"
    and test: "\<And>v. typeof v = TString \<or> typeof v = TNumber \<Longrightarrow>
                 equalFn (Some (defaultOptions options)) v s = Inr (q v)"
  shows "toEnumValue obj s options =
           (case filter q (Object_values obj) of
              [] \<Rightarrow> Inr JUndefined
            | [v] \<Rightarrow> Inr v
            | _ \<Rightarrow> Inl (Error ''Enum values are not unique. Cannot get value by value.''))"
proof -
  from valid have ok: "validateEnumLike obj = Inr ()"
    by (simp add: validate_iff)
  have "array_filter (\<lambda>v. equalFn (Some (defaultOptions options)) v s) (Object_values obj)
        = Inr (filter q (Object_values obj))"
  proof (rule array_filter_total)
    fix v
    assume "v \<in> set (Object_values obj)"
    with valid have "typeof v = TString \<or> typeof v = TNumber"
      by (rule valid_values)
    then show "equalFn (Some (defaultOptions options)) v s = Inr (q v)"
      by (rule test)
  qed
  then show ?thesis
    by (simp add: toEnumValue_def ok search)
qed

lemma filter_single_iff:
  "a \<noteq> b \<Longrightarrow>
   filter (\<lambda>v. v = a \<or> v = b) xs = [a] \<longleftrightarrow>
   length (filter (\<lambda>v. v = a) xs) = 1 \<and> b \<notin> set xs"
  by (induction xs) (auto simp: filter_empty_conv)

lemma pick_is:
  "(case found of [] \<Rightarrow> Inr JUndefined | [v] \<Rightarrow> Inr v | _ \<Rightarrow> Inl e) = Inr (JNum n) \<longleftrightarrow>
   found = [JNum n]"
  by (auto split: list.splits)

lemma pick_undefined:
  "JUndefined \<notin> set found \<Longrightarrow>
   (case found of [] \<Rightarrow> Inr JUndefined | [v] \<Rightarrow> Inr v | _ \<Rightarrow> Inl e) = Inr JUndefined \<longleftrightarrow>
   found = []"
  by (auto split: list.splits)

lemma convertOnly_default: "Some (defaultOptions convertOnly) = convertOnly"
  by (simp add: defaultOptions_def convertOnly_def)

lemma num_123_not_NaN: "num 123 \<noteq> NaN"
  by code_simp

section \<open>Claims\<close>

subsection \<open>C1: a custom converter applies to both operands\<close>

text \<open>
  As stated, C1 says that \<open>toEnumValue({Two: 2}, '1', {convert: true, converter})\<close> is 2
  for \<open>converter = s => Number(s) * 2\<close>. The predicate converts the candidate as well as
  the input, so the candidate 2 becomes 4 and nothing matches.
\<close>

theorem toEnumValue_doubling_counterexample:
  "toEnumValue enumTwo (JStr ''1'') (convertWith doublingConverter) \<noteq> Inr (JNum (num 2))"
  by code_simp

text \<open>
  Claim C1, amended. For the mapping \<open>{Two: 2}\<close> and the input \<open>'1'\<close> with \<open>convert\<close>
  set, \<open>toEnumValue\<close> returns 2 when the custom converter doubles the numeric parse of a
  string and returns a number unchanged; with \<open>s => Number(s) * 2\<close>, which also doubles
  the candidate (2 becomes 4, while \<open>'1'\<close> becomes 2), it returns \<open>undefined\<close>.
\<close>

theorem toEnumValue_custom_converter:
  "toEnumValue enumTwo (JStr ''1'') (convertWith customNumConverter) = Inr (JNum (num 2)) \<and>
   toEnumValue enumTwo (JStr ''1'') (convertWith doublingConverter) = Inr JUndefined \<and>
   doublingConverter (JNum (num 2)) = Inr (JNum (num 4)) \<and>
   doublingConverter (JStr ''1'') = Inr (JNum (num 2))"
  by code_simp

theorem toEnumValue_custom_converter_witness:
  "toEnumValue enumTwo (JStr ''1'') (convertWith customNumConverter) = Inr (JNum (num 2))"
  using toEnumValue_custom_converter by (rule conjunct1)

subsection \<open>C2: the expected type comes from the candidate before normalization\<close>

text \<open>
  As stated, C2 takes the expected type from the normalized candidate \<open>f(a)\<close>. With
  \<open>{normalize: String, convert: true}\<close>, the candidate 1 and the input \<open>'1 '\<close>, the
  normalized candidate is the string \<open>'1'\<close>; the predicate still compares as numbers
  (both sides convert to 1, so it answers true), where a comparison as strings answers
  false.
\<close>

theorem equalFn_expected_type_counterexample:
  "js_String (JNum (num 1)) = Inr ''1'' \<and>
   typeof (JStr ''1'') = TString \<and>
   equalFn stringifyConvert (JNum (num 1)) (JStr ''1 '') = Inr True \<and>
   equalFn_spec normalized_candidate stringifyConvert (JNum (num 1)) (JStr ''1 '') = Inr False"
  by code_simp

text \<open>
  Claim C2, amended. For every options configuration and every pair of operands
  (candidate \<open>a\<close>, input \<open>b\<close>), the predicate returned by \<open>equalFn\<close> takes the expected
  comparison type from the candidate \<open>a\<close> as given, before normalization: it is "string"
  exactly when \<open>a\<close> is a string and "number" otherwise; the type of \<open>b\<close> never
  influences it.
\<close>

theorem equalFn_expected_type_raw:
  "equalFn options a b = equalFn_spec raw_candidate options a b"
  by (cases "typeof a = TString"; cases "Option.bind options ignoreCase = Some True";
      cases "Option.bind options convert = Some True"; cases "Option.bind options converter")
     (simp_all add: equalFn_def equalFn_spec_def raw_candidate_def createConverter_def
        passthrough_def cong: sum.case_cong option.case_cong)

theorem equalFn_expected_type_raw_witness:
  "equalFn stringifyConvert (JNum (num 1)) (JStr ''1 '') =
   equalFn_spec raw_candidate stringifyConvert (JNum (num 1)) (JStr ''1 '')"
  by (rule equalFn_expected_type_raw)

subsection \<open>C3: the default conversion to a number\<close>

text \<open>
  As stated, C3 has the default conversion to "number" turn \<open>NaN\<close> into \<open>undefined\<close>, and
  gives the three results of \<open>toEnumValue\<close> for every numeric enum that contains the
  value 1. \<open>defaultConverter\<close> calls \<open>toNumber\<close> only on a value that is not a number, so
  \<open>NaN\<close> is returned as it is; on the mapping \<open>{A: NaN}\<close> two operands converted to
  \<open>undefined\<close> would be strictly equal, while \<open>NaN\<close> matches nothing. And three numeric
  enums that contain the value 1 give other results: \<open>enum {One = 1, First = 1}\<close> holds
  the value 1 twice, so the search for \<open>"1"\<close> throws; \<open>enum {abc = 1}\<close> maps the key
  \<open>'1'\<close> back to the name \<open>'abc'\<close>, so the search for \<open>"abc"\<close> finds that string; and
  \<open>enum {NaN = 1}\<close> maps it back to the name \<open>'NaN'\<close>, which the search for \<open>NaN\<close> finds,
  because the candidate is a string and \<open>NaN\<close> is converted to the string \<open>'NaN'\<close>.
\<close>

theorem defaultConverter_NaN_counterexample:
  "defaultConverter (JNum NaN) TNumber = Inr (JNum NaN) \<and>
   JNum NaN \<noteq> JUndefined \<and>
   strict_eq JUndefined JUndefined \<and>
   equalFn convertOnly (JNum NaN) (JNum NaN) = Inr False \<and>
   isEnumValue enumNaN (JNum NaN) convertOnly = Inr False \<and>
   isEnumLike enumOneFirst \<and> JNum (num 1) \<in> set (Object_values enumOneFirst) \<and>
   toEnumValue enumOneFirst (JStr ''1'') convertOnly =
     Inl (Error ''Enum values are not unique. Cannot get value by value.'') \<and>
   isEnumLike enumAbc \<and> JNum (num 1) \<in> set (Object_values enumAbc) \<and>
   toEnumValue enumAbc (JStr ''abc'') convertOnly = Inr (JStr ''abc'') \<and>
   isEnumLike enumNamedNaN \<and> JNum (num 1) \<in> set (Object_values enumNamedNaN) \<and>
   toEnumValue enumNamedNaN (JNum NaN) convertOnly = Inr (JStr ''NaN'')"
  by code_simp

text \<open>
  A mapping that holds the number 1 once and also the string \<open>'1'\<close>: with \<open>convert\<close> set
  both values match the search term \<open>"1"\<close>.
\<close>

lemma toEnumValue_one_and_string_one:
  "isEnumLike enumOneUno \<and>
   length (filter (\<lambda>v. v = JNum (num 1)) (Object_values enumOneUno)) = 1 \<and>
   toEnumValue enumOneUno (JStr ''1'') convertOnly =
     Inl (Error ''Enum values are not unique. Cannot get value by value.'')"
  by code_simp

text \<open>
  Claim C3, amended. With \<open>convert\<close> set and no custom converter, the default conversion
  to target type "number" returns every number unchanged, \<open>NaN\<close> included (which then
  matches nothing, since \<open>NaN\<close> is strictly equal to no value). It converts a string
  \<open>s\<close> to the number \<open>Number(s)\<close>, which ignores the white space around \<open>s\<close> (so
  \<open>' 1 '\<close> gives 1, \<open>'1e3'\<close> 1000, \<open>'100.0'\<close> 100, \<open>'0x10'\<close> 16, \<open>'5.'\<close> 5,
  \<open>'-.5'\<close> a negative half and \<open>'Infinity'\<close> the infinity), except that it gives
  \<open>undefined\<close> for a string that is empty after trimming (where \<open>Number(s)\<close> is 0) or
  that does not parse (where \<open>Number(s)\<close> is \<open>NaN\<close>, as for \<open>'abc'\<close> and \<open>'1 2'\<close>); so
  the conversion of a string never gives \<open>NaN\<close>. Consequently, for every valid mapping
  \<open>obj\<close>: \<open>toEnumValue(obj, "1", {convert: true})\<close> is 1 exactly when \<open>obj\<close> holds the
  number 1 exactly once and does not hold the string \<open>"1"\<close>;
  \<open>toEnumValue(obj, "abc", {convert: true})\<close> is \<open>undefined\<close> exactly when \<open>obj\<close> does
  not hold the string \<open>"abc"\<close>; and \<open>toEnumValue(obj, NaN, {convert: true})\<close> is
  \<open>undefined\<close> exactly when \<open>obj\<close> does not hold the string \<open>"NaN"\<close>.
\<close>

theorem default_number_conversion:
  "defaultConverter (JNum n) TNumber = Inr (JNum n) \<and>
   defaultConverter (JStr s) TNumber =
     Inr (if trim s = [] \<or> StringToNumber s = NaN then JUndefined
          else JNum (StringToNumber s)) \<and>
   defaultConverter (JStr s) TNumber \<noteq> Inr (JNum NaN) \<and>
   defaultConverter (JStr '' 1 '') TNumber = Inr (JNum (num 1)) \<and>
   defaultConverter (JStr ''1e3'') TNumber = Inr (JNum (num 1000)) \<and>
   defaultConverter (JStr ''100.0'') TNumber = Inr (JNum (num 100)) \<and>
   defaultConverter (JStr ''0x10'') TNumber = Inr (JNum (num 16)) \<and>
   defaultConverter (JStr ''5.'') TNumber = Inr (JNum (num 5)) \<and>
   defaultConverter (JStr ''-.5'') TNumber = Inr (JNum (Fin (- 1) (- 1))) \<and>
   defaultConverter (JStr ''Infinity'') TNumber = Inr (JNum PosInf) \<and>
   defaultConverter (JStr ''abc'') TNumber = Inr JUndefined \<and>
   defaultConverter (JStr ''1 2'') TNumber = Inr JUndefined \<and>
   defaultConverter (JStr []) TNumber = Inr JUndefined \<and>
   defaultConverter (JStr ''   '') TNumber = Inr JUndefined \<and>
   StringToNumber ''   '' = num 0 \<and>
   (isEnumLike obj \<longrightarrow>
      (toEnumValue obj (JStr ''1'') convertOnly = Inr (JNum (num 1)) \<longleftrightarrow>
       length (filter (\<lambda>v. v = JNum (num 1)) (Object_values obj)) = 1 \<and>
       JStr ''1'' \<notin> set (Object_values obj))) \<and>
   (isEnumLike obj \<longrightarrow>
      (toEnumValue obj (JStr ''abc'') convertOnly = Inr JUndefined \<longleftrightarrow>
       JStr ''abc'' \<notin> set (Object_values obj))) \<and>
   (isEnumLike obj \<longrightarrow>
      (toEnumValue obj (JNum NaN) convertOnly = Inr JUndefined \<longleftrightarrow>
       JStr ''NaN'' \<notin> set (Object_values obj)))"
proof -
  have numbers: "defaultConverter (JNum n) TNumber = Inr (JNum n)"
    by (simp add: defaultConverter_def)
  have strings: "defaultConverter (JStr s) TNumber =
      Inr (if trim s = [] \<or> StringToNumber s = NaN then JUndefined
           else JNum (StringToNumber s))"
    by (simp add: defaultConverter_def Let_def StringToNumber_trim)
  then have neverNaN: "defaultConverter (JStr s) TNumber \<noteq> Inr (JNum NaN)"
    by simp
  have e1: "defaultConverter (JStr '' 1 '') TNumber = Inr (JNum (num 1))"
    by code_simp
  have e2: "defaultConverter (JStr ''1e3'') TNumber = Inr (JNum (num 1000))"
    by code_simp
  have e3: "defaultConverter (JStr ''100.0'') TNumber = Inr (JNum (num 100))"
    by code_simp
  have e4: "defaultConverter (JStr ''0x10'') TNumber = Inr (JNum (num 16))"
    by code_simp
  have e5: "defaultConverter (JStr ''5.'') TNumber = Inr (JNum (num 5))"
    by code_simp
  have e6: "defaultConverter (JStr ''-.5'') TNumber = Inr (JNum (Fin (- 1) (- 1)))"
    by code_simp
  have e7: "defaultConverter (JStr ''Infinity'') TNumber = Inr (JNum PosInf)"
    by code_simp
  have e8: "defaultConverter (JStr ''abc'') TNumber = Inr JUndefined"
    by code_simp
  have e9: "defaultConverter (JStr ''1 2'') TNumber = Inr JUndefined"
    by code_simp
  have e10: "defaultConverter (JStr []) TNumber = Inr JUndefined"
    by code_simp
  have e11: "defaultConverter (JStr ''   '') TNumber = Inr JUndefined"
    by code_simp
  have e12: "StringToNumber ''   '' = num 0"
    by code_simp
  have one: "toEnumValue obj (JStr ''1'') convertOnly = Inr (JNum (num 1)) \<longleftrightarrow>
      length (filter (\<lambda>v. v = JNum (num 1)) (Object_values obj)) = 1 \<and>
      JStr ''1'' \<notin> set (Object_values obj)" if valid: "isEnumLike obj"
  proof -
    have "toEnumValue obj (JStr ''1'') convertOnly =
        (case filter (\<lambda>v. v = JNum (num 1) \<or> v = JStr ''1'') (Object_values obj) of
           [] \<Rightarrow> Inr JUndefined
         | [v] \<Rightarrow> Inr v
         | _ \<Rightarrow> Inl (Error ''Enum values are not unique. Cannot get value by value.''))"
      using valid by (rule toEnumValue_scan) (simp_all add: convertOnly_default match_one)
    then show ?thesis
      by (simp add: pick_is filter_single_iff)
  qed
  have abc: "toEnumValue obj (JStr ''abc'') convertOnly = Inr JUndefined \<longleftrightarrow>
      JStr ''abc'' \<notin> set (Object_values obj)" if valid: "isEnumLike obj"
  proof -
    have "toEnumValue obj (JStr ''abc'') convertOnly =
        (case filter (\<lambda>v. v = JStr ''abc'') (Object_values obj) of
           [] \<Rightarrow> Inr JUndefined
         | [v] \<Rightarrow> Inr v
         | _ \<Rightarrow> Inl (Error ''Enum values are not unique. Cannot get value by value.''))"
      using valid by (rule toEnumValue_scan) (simp_all add: convertOnly_default match_abc)
    moreover have "JUndefined \<notin> set (filter (\<lambda>v. v = JStr ''abc'') (Object_values obj))"
      by simp
    then have "(case filter (\<lambda>v. v = JStr ''abc'') (Object_values obj) of
           [] \<Rightarrow> Inr JUndefined
         | [v] \<Rightarrow> Inr v
         | _ \<Rightarrow> Inl (Error ''Enum values are not unique. Cannot get value by value.'')) =
        Inr JUndefined \<longleftrightarrow> filter (\<lambda>v. v = JStr ''abc'') (Object_values obj) = []"
      by (rule pick_undefined)
    ultimately show ?thesis
      by (auto simp: filter_empty_conv)
  qed
  have nan: "toEnumValue obj (JNum NaN) convertOnly = Inr JUndefined \<longleftrightarrow>
      JStr ''NaN'' \<notin> set (Object_values obj)" if valid: "isEnumLike obj"
  proof -
    have "toEnumValue obj (JNum NaN) convertOnly =
        (case filter (\<lambda>v. v = JStr ''NaN'') (Object_values obj) of
           [] \<Rightarrow> Inr JUndefined
         | [v] \<Rightarrow> Inr v
         | _ \<Rightarrow> Inl (Error ''Enum values are not unique. Cannot get value by value.''))"
      using valid by (rule toEnumValue_scan) (simp_all add: convertOnly_default match_NaN)
    moreover have "JUndefined \<notin> set (filter (\<lambda>v. v = JStr ''NaN'') (Object_values obj))"
      by simp
    then have "(case filter (\<lambda>v. v = JStr ''NaN'') (Object_values obj) of
           [] \<Rightarrow> Inr JUndefined
         | [v] \<Rightarrow> Inr v
         | _ \<Rightarrow> Inl (Error ''Enum values are not unique. Cannot get value by value.'')) =
        Inr JUndefined \<longleftrightarrow> filter (\<lambda>v. v = JStr ''NaN'') (Object_values obj) = []"
      by (rule pick_undefined)
    ultimately show ?thesis
      by (auto simp: filter_empty_conv)
  qed
  from numbers strings neverNaN e1 e2 e3 e4 e5 e6 e7 e8 e9 e10 e11 e12 one abc nan
  show ?thesis
    by (intro conjI impI)
qed

theorem default_number_conversion_witness:
  "isEnumLike numericEnum \<and>
   length (filter (\<lambda>v. v = JNum (num 1)) (Object_values numericEnum)) = 1 \<and>
   JStr ''1'' \<notin> set (Object_values numericEnum) \<and>
   JStr ''abc'' \<notin> set (Object_values numericEnum) \<and>
   JStr ''NaN'' \<notin> set (Object_values numericEnum) \<and>
   toEnumValue numericEnum (JStr ''1'') convertOnly = Inr (JNum (num 1)) \<and>
   toEnumValue numericEnum (JStr ''abc'') convertOnly = Inr JUndefined \<and>
   toEnumValue numericEnum (JNum NaN) convertOnly = Inr JUndefined"
proof -
  have valid: "isEnumLike numericEnum"
    by code_simp
  have h1: "length (filter (\<lambda>v. v = JNum (num 1)) (Object_values numericEnum)) = 1 \<and>
      JStr ''1'' \<notin> set (Object_values numericEnum)"
    by code_simp
  have h2: "JStr ''abc'' \<notin> set (Object_values numericEnum)"
    by code_simp
  have h3: "JStr ''NaN'' \<notin> set (Object_values numericEnum)"
    by code_simp
  note inst = default_number_conversion [of _ _ numericEnum]
  from inst valid h1 have r1: "toEnumValue numericEnum (JStr ''1'') convertOnly = Inr (JNum (num 1))"
    by blast
  from inst valid h2 have r2: "toEnumValue numericEnum (JStr ''abc'') convertOnly = Inr JUndefined"
    by blast
  from inst valid h3 have r3: "toEnumValue numericEnum (JNum NaN) convertOnly = Inr JUndefined"
    by blast
  from valid h1 h2 h3 r1 r2 r3 show ?thesis
    by blast
qed

subsection \<open>C4: duplicate values\<close>

text \<open>
  As stated, C4 holds for every valid EnumLike in which two distinct keys map to the
  value \<open>V\<close> under the configured predicate. In \<open>{A: 'x', B: 'x', C: 'boom'}\<close> with the
  hook \<open>normalize: v => { if (v === 'boom') throw new Error('hook'); return v; }\<close> the
  keys \<open>A\<close> and \<open>B\<close> map to \<open>'x'\<close> and the predicate accepts both, yet both lookups
  throw the error of the hook, raised at the key \<open>C\<close>. And in \<open>{A: 'x', B: 'y'}\<close> with the
  converter \<open>() => 0\<close> the predicate accepts both values for the search term
  \<open>undefined\<close>, yet the lookups return \<open>undefined\<close> and the empty list without a scan.
\<close>

theorem duplicate_value_detection_counterexample:
  "isEnumLike enumXXBoom \<and>
   get_prop enumXXBoom ''A'' = JStr ''x'' \<and> get_prop enumXXBoom ''B'' = JStr ''x'' \<and>
   equalFn (normalizeWith throwOnBoom) (get_prop enumXXBoom ''A'') (JStr ''x'') = Inr True \<and>
   equalFn (normalizeWith throwOnBoom) (get_prop enumXXBoom ''B'') (JStr ''x'') = Inr True \<and>
   enumKeyByValue enumXXBoom (JStr ''x'') (normalizeWith throwOnBoom) = Inl (Error ''hook'') \<and>
   enumKeysByValue enumXXBoom (JStr ''x'') (normalizeWith throwOnBoom) = Inl (Error ''hook'') \<and>
   isEnumLike enumXY \<and>
   equalFn (convertWith constantZero) (get_prop enumXY ''A'') JUndefined = Inr True \<and>
   equalFn (convertWith constantZero) (get_prop enumXY ''B'') JUndefined = Inr True \<and>
   enumKeyByValue enumXY JUndefined (convertWith constantZero) = Inr JUndefined \<and>
   enumKeysByValue enumXY JUndefined (convertWith constantZero) = Inr []"
  by code_simp

text \<open>
  Claim C4, amended. For every valid EnumLike, every options configuration and every
  search value \<open>V\<close> that is neither \<open>null\<close> nor \<open>undefined\<close>: if the configured predicate
  throws on no entry of the mapping and accepts the values of two distinct keys, then
  \<open>enumKeyByValue(obj, V)\<close> throws the error "Enum values are not unique. Cannot get key
  by value.", while \<open>enumKeysByValue(obj, V)\<close> returns the full list of all matching keys
  in the mapping's key-iteration order.
\<close>

theorem duplicate_value_detection:
  assumes valid: "isEnumLike obj"
    and search: "\<not> eq_null V"
    and defined: "\<forall>k \<in> set (Object_keys obj). \<not> isl (equalFn options (get_prop obj k) V)"
    and k1: "k1 \<in> set (Object_keys obj)" "equalFn options (get_prop obj k1) V = Inr True"
    and k2: "k2 \<in> set (Object_keys obj)" "equalFn options (get_prop obj k2) V = Inr True"
    and different: "k1 \<noteq> k2"
  shows "enumKeyByValue obj V options =
           Inl (Error ''Enum values are not unique. Cannot get key by value.'') \<and>
         enumKeysByValue obj V options =
           Inr (filter (\<lambda>k. equalFn options (get_prop obj k) V = Inr True) (Object_keys obj))"
proof -
  let ?matches = "filter (\<lambda>k. equalFn options (get_prop obj k) V = Inr True) (Object_keys obj)"
  from valid have ok: "validateEnumLike obj = Inr ()"
    by (simp add: validate_iff)
  from defined have scan:
    "array_filter (\<lambda>k. equalFn options (get_prop obj k) V) (Object_keys obj) = Inr ?matches"
    by (intro array_filter_defined) blast
  from k1 k2 have "k1 \<in> set ?matches" "k2 \<in> set ?matches"
    by simp_all
  with different obtain x y zs where many: "?matches = x # y # zs"
    using two_members by metis
  show ?thesis
    by (simp add: enumKeyByValue_def enumKeysByValue_def ok search scan many)
qed

theorem duplicate_value_detection_witness:
  "isEnumLike enumColor \<and>
   equalFn None (get_prop enumColor ''Blue'') (JStr ''#0000ff'') = Inr True \<and>
   equalFn None (get_prop enumColor ''AlsoBlue'') (JStr ''#0000ff'') = Inr True \<and>
   enumKeyByValue enumColor (JStr ''#0000ff'') None =
     Inl (Error ''Enum values are not unique. Cannot get key by value.'') \<and>
   enumKeysByValue enumColor (JStr ''#0000ff'') None = Inr [''Blue'', ''AlsoBlue'']"
proof -
  have valid: "isEnumLike enumColor"
    by (simp add: enumColor_def isEnumLike_def Object_keys_def get_prop_def)
  have search: "\<not> eq_null (JStr ''#0000ff'')"
    by simp
  have defined: "\<forall>k \<in> set (Object_keys enumColor).
      \<not> isl (equalFn None (get_prop enumColor k) (JStr ''#0000ff''))"
    by (simp add: equalFn_None)
  have keys: "''Blue'' \<in> set (Object_keys enumColor)" "''AlsoBlue'' \<in> set (Object_keys enumColor)"
    by (simp_all add: enumColor_def Object_keys_def)
  have blue: "equalFn None (get_prop enumColor ''Blue'') (JStr ''#0000ff'') = Inr True"
    by (simp add: equalFn_None enumColor_def get_prop_def)
  have blue2: "equalFn None (get_prop enumColor ''AlsoBlue'') (JStr ''#0000ff'') = Inr True"
    by (simp add: equalFn_None enumColor_def get_prop_def)
  have different: "''Blue'' \<noteq> ''AlsoBlue''"
    by simp
  have matches: "filter (\<lambda>k. equalFn None (get_prop enumColor k) (JStr ''#0000ff'') = Inr True)
      (Object_keys enumColor) = [''Blue'', ''AlsoBlue'']"
    by (simp add: equalFn_None enumColor_def get_prop_def Object_keys_def)
  from duplicate_value_detection [OF valid search defined keys(1) blue keys(2) blue2 different]
  have "enumKeyByValue enumColor (JStr ''#0000ff'') None =
          Inl (Error ''Enum values are not unique. Cannot get key by value.'') \<and>
        enumKeysByValue enumColor (JStr ''#0000ff'') None = Inr [''Blue'', ''AlsoBlue'']"
    by (simp only: matches)
  with valid blue blue2 show ?thesis
    by blast
qed

subsection \<open>C5: from a key to its value and back\<close>

text \<open>
  As stated, C5 holds for every key of every valid EnumLike with pairwise distinct
  values. In \<open>{A: NaN}\<close> the key \<open>A\<close> maps to \<open>NaN\<close>, which is strictly equal to no value,
  itself included: the lookup by value finds no key and returns \<open>undefined\<close>.
\<close>

theorem lookup_round_trip_counterexample:
  "isEnumLike enumNaN \<and> distinct (Object_values enumNaN) \<and>
   keyOfValueOfKey enumNaN ''A'' \<noteq> Inr (JStr ''A'')"
  by code_simp

text \<open>
  Claim C5, amended. For every valid EnumLike whose values are pairwise distinct, and for
  every key \<open>K\<close> of that mapping whose value is not \<open>NaN\<close>, the round trip
  \<open>enumKeyByValue(obj, enumValueByKey(obj, K))\<close> (with default options) returns \<open>K\<close>.
\<close>

theorem lookup_round_trip:
  assumes valid: "isEnumLike obj"
    and vals: "distinct (Object_values obj)"
    and K: "K \<in> set (Object_keys obj)"
    and notNaN: "get_prop obj K \<noteq> JNum NaN"
  shows "keyOfValueOfKey obj K = Inr (JStr K)"
proof -
  let ?v = "get_prop obj K"
  from valid have ok: "validateEnumLike obj = Inr ()"
    by (simp add: validate_iff)
  from vals have keys: "distinct (Object_keys obj)"
    and inj: "inj_on (get_prop obj) (set (Object_keys obj))"
    by (simp_all add: Object_values_def distinct_map)
  from valid K have tv: "typeof ?v = TString \<or> typeof ?v = TNumber"
    by (auto simp: isEnumLike_def isEnumLike_loop_all split: if_splits)
  then have nn: "\<not> eq_null ?v"
    by (cases ?v) auto
  have "array_filter (\<lambda>k. equalFn None (JStr k) (JStr K)) (Object_keys obj)
        = Inr (filter (\<lambda>k. k = K) (Object_keys obj))"
    by (rule array_filter_total) (simp add: equalFn_None)
  with keys K have byKey: "enumValueByKey obj (JStr K) None = Inr ?v"
    by (simp add: enumValueByKey_def ok filter_eq_single)
  have same: "(get_prop obj k = ?v) = (k = K)" if "k \<in> set (Object_keys obj)" for k
    using inj that K by (auto dest: inj_onD)
  from tv notNaN
  have "array_filter (\<lambda>k. equalFn None (get_prop obj k) ?v) (Object_keys obj)
        = Inr (filter (\<lambda>k. k = K) (Object_keys obj))"
    by (intro array_filter_total) (simp add: equalFn_None strict_eq_enum_value same)
  with keys K have "enumKeyByValue obj ?v None = Inr (JStr K)"
    by (simp add: enumKeyByValue_def ok nn filter_eq_single)
  with byKey show ?thesis
    by (simp add: keyOfValueOfKey_def)
qed

theorem lookup_round_trip_witness:
  "isEnumLike customEnumLike \<and> distinct (Object_values customEnumLike) \<and>
   get_prop customEnumLike ''C'' = JNum (num 123) \<and>
   keyOfValueOfKey customEnumLike ''C'' = Inr (JStr ''C'')"
proof -
  have valid: "isEnumLike customEnumLike"
    by (simp add: customEnumLike_def isEnumLike_def Object_keys_def get_prop_def)
  have vals: "distinct (Object_values customEnumLike)"
    by (simp add: customEnumLike_def Object_values_def Object_keys_def get_prop_def)
  have K: "''C'' \<in> set (Object_keys customEnumLike)"
    by (simp add: customEnumLike_def Object_keys_def)
  have val: "get_prop customEnumLike ''C'' = JNum (num 123)"
    by (simp add: customEnumLike_def get_prop_def)
  then have notNaN: "get_prop customEnumLike ''C'' \<noteq> JNum NaN"
    by (simp add: num_123_not_NaN)
  from lookup_round_trip [OF valid vals K notNaN] valid vals val
  show ?thesis
    by blast
qed

subsection \<open>C6: a null or undefined search term\<close>

text \<open>
  As stated, C6 has every wrapper yield \<open>undefined\<close> (or the empty list) on a \<open>null\<close> or
  \<open>undefined\<close> search term. The two boolean wrappers return \<open>false\<close>, which is not
  \<open>undefined\<close>.
\<close>

theorem null_search_term_counterexample:
  "isEnumValue enumAx JNull None = Inr False \<and>
   isEnumKey enumAx JUndefined None = Inr False \<and>
   JBool False \<noteq> JUndefined"
  by code_simp

text \<open>
  Claim C6, amended. For every valid EnumLike and every options configuration, a \<open>null\<close>
  or \<open>undefined\<close> search term given to any of the four base lookups
  (\<open>enumValueByValue\<close>, \<open>enumValueByKey\<close>, \<open>enumKeyByKey\<close>, \<open>enumKeyByValue\<close>) and to the
  wrappers \<open>toEnumValue\<close> and \<open>toEnumKey\<close> yields \<open>undefined\<close>, given to the plural
  operations \<open>enumKeysByValue\<close> and \<open>toEnumKeys\<close> yields the empty list, and given to the
  boolean wrappers \<open>isEnumValue\<close> and \<open>isEnumKey\<close> yields \<open>false\<close>; none of them throws
  or invokes the comparison predicate on any entry. The result is the same for every
  options configuration, also for one whose hooks throw whenever they are called, so the
  predicate has not run.
\<close>

theorem null_search_term:
  assumes valid: "isEnumLike obj" and nullish: "eq_null s"
  shows "enumValueByValue obj s options = Inr JUndefined \<and>
         enumValueByKey obj s options = Inr JUndefined \<and>
         enumKeyByKey obj s options = Inr JUndefined \<and>
         enumKeyByValue obj s options = Inr JUndefined \<and>
         enumKeysByValue obj s options = Inr [] \<and>
         toEnumValue obj s options = Inr JUndefined \<and>
         toEnumKey obj s options = Inr JUndefined \<and>
         toEnumKeys obj s options = Inr [] \<and>
         isEnumValue obj s options = Inr False \<and>
         isEnumKey obj s options = Inr False"
proof -
  from valid have ok: "validateEnumLike obj = Inr ()"
    by (simp add: validate_iff)
  show ?thesis
    by (simp add: ok nullish enumValueByValue_def enumValueByKey_def enumKeyByKey_def
          enumKeyByValue_def enumKeysByValue_def toEnumValue_def toEnumKey_def toEnumKeys_def
          isEnumValue_def isEnumKey_def)
qed

theorem null_search_term_witness:
  "isEnumLike enumColor \<and> eq_null JNull \<and>
   equalFn throwingHooks (JStr ''#ff0000'') (JStr ''#ff0000'') = Inl (Error ''normalize called'') \<and>
   enumValueByValue enumColor JNull throwingHooks = Inr JUndefined \<and>
   enumValueByKey enumColor JNull throwingHooks = Inr JUndefined \<and>
   enumKeyByKey enumColor JNull throwingHooks = Inr JUndefined \<and>
   enumKeyByValue enumColor JNull throwingHooks = Inr JUndefined \<and>
   enumKeysByValue enumColor JNull throwingHooks = Inr [] \<and>
   toEnumValue enumColor JNull throwingHooks = Inr JUndefined \<and>
   toEnumKey enumColor JNull throwingHooks = Inr JUndefined \<and>
   toEnumKeys enumColor JNull throwingHooks = Inr [] \<and>
   isEnumValue enumColor JNull throwingHooks = Inr False \<and>
   isEnumKey enumColor JNull throwingHooks = Inr False"
proof -
  have valid: "isEnumLike enumColor"
    by (simp add: enumColor_def isEnumLike_def Object_keys_def get_prop_def)
  have nullish: "eq_null JNull"
    by simp
  have thrown: "equalFn throwingHooks (JStr ''#ff0000'') (JStr ''#ff0000'')
      = Inl (Error ''normalize called'')"
    by (simp add: equalFn_def throwingHooks_def)
  from null_search_term [OF valid nullish, of throwingHooks] valid nullish thrown
  show ?thesis
    by blast
qed

subsection \<open>C7: the two validators\<close>

text \<open>
  Claim C7. For every input that is \<open>null\<close> or not an object, \<open>isEnumLike\<close> returns false
  and \<open>validateEnumLike\<close> throws "The enum object is required."; for every object whose
  own string-keyed property values are all strings or numbers, \<open>isEnumLike\<close> returns true
  and \<open>validateEnumLike\<close> does not throw; and the two functions perform the identical
  check: for every input, \<open>isEnumLike\<close> returns true exactly when \<open>validateEnumLike\<close>
  does not throw.
\<close>

theorem validator_totality:
  "(v = JNull \<or> typeof v \<noteq> TObject \<longrightarrow>
      \<not> isEnumLike v \<and> validateEnumLike v = Inl (Error ''The enum object is required.'')) \<and>
   (typeof w = TObject \<and> w \<noteq> JNull \<and>
    (\<forall>x \<in> set (Object_values w). typeof x = TString \<or> typeof x = TNumber) \<longrightarrow>
      isEnumLike w \<and> validateEnumLike w = Inr ()) \<and>
   (isEnumLike u \<longleftrightarrow> validateEnumLike u = Inr ())"
proof (intro conjI impI)
  assume "v = JNull \<or> typeof v \<noteq> TObject"
  then have "\<not> truthy v \<or> typeof v \<noteq> TObject"
    by auto
  then show "\<not> isEnumLike v"
    and "validateEnumLike v = Inl (Error ''The enum object is required.'')"
    by (simp_all add: isEnumLike_def validateEnumLike_def)
next
  assume h: "typeof w = TObject \<and> w \<noteq> JNull \<and>
    (\<forall>x \<in> set (Object_values w). typeof x = TString \<or> typeof x = TNumber)"
  then have "truthy w"
    by (cases w) auto
  with h show "isEnumLike w"
    by (simp add: isEnumLike_def isEnumLike_loop_all get_prop_in_values)
  then show "validateEnumLike w = Inr ()"
    by (simp add: validate_iff)
next
  show "isEnumLike u \<longleftrightarrow> validateEnumLike u = Inr ()"
    by (rule validate_iff)
qed

theorem validator_totality_witness:
  "\<not> isEnumLike JNull \<and>
   validateEnumLike JNull = Inl (Error ''The enum object is required.'') \<and>
   typeof (JStr ''string'') \<noteq> TObject \<and> \<not> isEnumLike (JStr ''string'') \<and>
   validateEnumLike (JStr ''string'') = Inl (Error ''The enum object is required.'') \<and>
   typeof customEnumLike = TObject \<and> customEnumLike \<noteq> JNull \<and>
   list_all (\<lambda>x. typeof x = TString \<or> typeof x = TNumber) (Object_values customEnumLike) \<and>
   isEnumLike customEnumLike \<and> validateEnumLike customEnumLike = Inr ()"
proof -
  have h: "typeof customEnumLike = TObject \<and> customEnumLike \<noteq> JNull \<and>
      (\<forall>x \<in> set (Object_values customEnumLike). typeof x = TString \<or> typeof x = TNumber)"
    by (simp add: customEnumLike_def Object_values_def Object_keys_def get_prop_def)
  have s: "typeof (JStr ''string'') \<noteq> TObject"
    by simp
  from validator_totality [of JNull]
  have n1: "\<not> isEnumLike JNull \<and>
      validateEnumLike JNull = Inl (Error ''The enum object is required.'')"
    by blast
  from validator_totality [of "JStr ''string''"] s
  have n2: "\<not> isEnumLike (JStr ''string'') \<and>
      validateEnumLike (JStr ''string'') = Inl (Error ''The enum object is required.'')"
    by blast
  from validator_totality [of _ customEnumLike] h
  have "isEnumLike customEnumLike \<and> validateEnumLike customEnumLike = Inr ()"
    by blast
  with h s n1 n2 show ?thesis
    by (simp add: list_all_iff)
qed

subsection \<open>C8: case-folding applies to strings only\<close>



subsection \<open>C9: the wrappers agree with the base lookups\<close>

text \<open>
  Claim C9. For every valid EnumLike, every options configuration, and every search
  argument that is an EnumValue (string or number) or \<open>undefined\<close>, the wrapper
  \<open>toEnumValue(obj, v, opts)\<close> produces the same outcome (same returned value, same
  \<open>undefined\<close>, and throws in the same cases) as \<open>enumValueByValue(obj, v, opts)\<close>, and
  \<open>toEnumKeys(obj, v, opts)\<close> produces the same list as \<open>enumKeysByValue(obj, v, opts)\<close>;
  likewise \<open>toEnumKey\<close> agrees with \<open>enumKeyByKey\<close> on string search arguments. The first
  two equations hold for every mapping argument and every search argument whatever.
\<close>

theorem wrappers_agree_with_lookups:
  "toEnumValue obj v options = enumValueByValue obj v options \<and>
   toEnumKeys obj v options = enumKeysByValue obj v options \<and>
   (typeof k = TString \<longrightarrow> toEnumKey obj k options = enumKeyByKey obj k options)"
proof (intro conjI impI)
  show "toEnumValue obj v options = enumValueByValue obj v options"
    by (simp add: toEnumValue_def enumValueByValue_def equalFn_defaultOptions
          cong: sum.case_cong)
  show "toEnumKeys obj v options = enumKeysByValue obj v options"
    by (simp add: toEnumKeys_def enumKeysByValue_def equalFn_defaultOptions
          cong: sum.case_cong)
  assume "typeof k = TString"
  then obtain s where "k = JStr s"
    by (cases k) auto
  then show "toEnumKey obj k options = enumKeyByKey obj k options"
    by (simp add: toEnumKey_def enumKeyByKey_def equalFn_defaultOptions js_String_def
          cong: sum.case_cong)
qed

theorem wrappers_agree_with_lookups_witness:
  "typeof (JStr ''red'') = TString \<and>
   toEnumKey enumColor (JStr ''red'') ignoreCaseOnly =
     enumKeyByKey enumColor (JStr ''red'') ignoreCaseOnly \<and>
   toEnumValue enumColor (JStr ''#0000FF'') ignoreCaseOnly =
     enumValueByValue enumColor (JStr ''#0000FF'') ignoreCaseOnly \<and>
   toEnumKeys enumColor (JStr ''#0000FF'') ignoreCaseOnly =
     enumKeysByValue enumColor (JStr ''#0000FF'') ignoreCaseOnly"
proof -
  have h: "typeof (JStr ''red'') = TString"
    by simp
  from wrappers_agree_with_lookups
    [of enumColor "JStr ''#0000FF''" ignoreCaseOnly "JStr ''red''"] h
  show ?thesis
    by blast
qed

subsection \<open>C10: arrays as mappings\<close>

text \<open>
  As stated, C10 accepts every array all of whose elements are strings or numbers. An
  array is an object and may carry own enumerable properties besides its elements; the
  validators read those as well. The result of \<open>'a'.match(/a/)\<close> is an array whose only
  element is the string \<open>'a'\<close>; its property \<open>groups\<close> is \<open>undefined\<close>, and both
  validators reject it. So does \<open>Object.assign(['x'], {flag: true})\<close>.
\<close>

theorem arrays_are_enum_like_counterexample:
  "isArray matchResult \<and>
   list_all (\<lambda>x. typeof x = TString \<or> typeof x = TNumber) (elements matchResult) \<and>
   \<not> isEnumLike matchResult \<and>
   validateEnumLike matchResult =
     Inl (Error ''Invalid enum value: undefined. Expected string or number.'') \<and>
   isArray flaggedArray \<and>
   list_all (\<lambda>x. typeof x = TString \<or> typeof x = TNumber) (elements flaggedArray) \<and>
   \<not> isEnumLike flaggedArray \<and>
   validateEnumLike flaggedArray =
     Inl (Error ''Invalid enum value: true. Expected string or number.'')"
  by code_simp

text \<open>
  Claim C10, amended. Every array all of whose elements and other own enumerable
  properties are strings or numbers (including the empty array; a hole is not a
  property) is accepted as a valid EnumLike: \<open>isEnumLike\<close> returns true and
  \<open>validateEnumLike\<close> does not throw on it, because an array is a non-null object whose
  own enumerable keys are the index strings of its elements and the names of its other
  properties; the validator's rejection of non-objects does not exclude arrays as the
  mapping argument.
\<close>

theorem arrays_are_enum_like:
  "(\<forall>x \<in> set (present els) \<union> set (map snd named). typeof x = TString \<or> typeof x = TNumber) \<longrightarrow>
     isEnumLike (JArray a els named) \<and> validateEnumLike (JArray a els named) = Inr ()"
proof
  assume typed:
    "\<forall>x \<in> set (present els) \<union> set (map snd named). typeof x = TString \<or> typeof x = TNumber"
  have "typeof (get_prop (JArray a els named) k) = TString \<or>
        typeof (get_prop (JArray a els named) k) = TNumber"
    if "k \<in> set (Object_keys (JArray a els named))" for k
  proof -
    from that have "(k, get_prop (JArray a els named) k) \<in> set (ownProps (JArray a els named))"
      by (rule get_prop_own)
    then consider "(k, get_prop (JArray a els named) k) \<in> set (index_props els)"
      | "(k, get_prop (JArray a els named) k) \<in> set named"
      by auto
    then have "get_prop (JArray a els named) k \<in> set (present els) \<union> set (map snd named)"
    proof cases
      case 1
      then show ?thesis
        by (auto dest: index_props_present)
    next
      case 2
      then have "snd (k, get_prop (JArray a els named) k) \<in> snd ` set named"
        by (rule imageI)
      then show ?thesis
        by simp
    qed
    with typed show ?thesis
      by blast
  qed
  then have "isEnumLike (JArray a els named)"
    by (simp add: isEnumLike_def isEnumLike_loop_all)
  then show "isEnumLike (JArray a els named) \<and> validateEnumLike (JArray a els named) = Inr ()"
    by (simp add: validate_iff)
qed

theorem arrays_are_enum_like_witness:
  "list_all (\<lambda>x. typeof x = TString \<or> typeof x = TNumber)
     (present [Some (JStr ''a''), None, Some (JNum (num 2))] @ map snd [(''unit'', JStr ''px'')]) \<and>
   sparseArray = JArray 0 [Some (JStr ''a''), None, Some (JNum (num 2))] [(''unit'', JStr ''px'')] \<and>
   isEnumLike sparseArray \<and> validateEnumLike sparseArray = Inr () \<and>
   isEnumLike (JArray 0 [] []) \<and> validateEnumLike (JArray 0 [] []) = Inr ()"
proof -
  have h: "\<forall>x \<in> set (present [Some (JStr ''a''), None, Some (JNum (num 2))]) \<union>
             set (map snd [(''unit'', JStr ''px'')]). typeof x = TString \<or> typeof x = TNumber"
    by (simp add: present_def)
  have e: "\<forall>x \<in> set (present []) \<union> set (map snd ([] :: (string \<times> jsval) list)).
             typeof x = TString \<or> typeof x = TNumber"
    by (simp add: present_def)
  from arrays_are_enum_like
    [of "[Some (JStr ''a''), None, Some (JNum (num 2))]" "[(''unit'', JStr ''px'')]" 0] h
  have full: "isEnumLike sparseArray \<and> validateEnumLike sparseArray = Inr ()"
    unfolding sparseArray_def by blast
  from arrays_are_enum_like [of "[]" "[]" 0] e
  have "isEnumLike (JArray 0 [] []) \<and> validateEnumLike (JArray 0 [] []) = Inr ()"
    by blast
  with full h show ?thesis
    by (simp add: list_all_iff sparseArray_def)
qed

end
